theory Spec2Isabelle
  imports Complex_Main "HOL-Library.Word" "HOL-Library.AList" "HOL-Library.Char_ord"
    "HOL-Library.List_Lexorder" "HOL-Library.Log_Nat"
begin

unbundle bit_operations_syntax

text \<open>
  A shallow embedding of the two algorithmic parts of the moomoo options bot: the CPPI
  policy engine (\<open>cppi.ts\<close>) and the backtesting engine with its mock data generator,
  followed by the properties of the specification that were checked against them.
\<close>

section \<open>JavaScript numbers\<close>

text \<open>
  The program computes with JavaScript numbers.  The model keeps the finite values as
  reals and adds the three non-finite results a division can produce, so that a division
  by zero is a value of the model and not HOL's \<open>x / 0 = 0\<close>.  The operations of this
  section are exact; the next section adds the rounding.  Overflow and the sign of zero
  are not modelled: a zero divisor is taken as \<open>+0\<close>.
\<close>

datatype jsnum = Fin real | PInf | NInf | NaN

fun jneg :: "jsnum \<Rightarrow> jsnum" where
  "jneg (Fin a) = Fin (- a)"
| "jneg PInf = NInf"
| "jneg NInf = PInf"
| "jneg NaN = NaN"

fun jadd :: "jsnum \<Rightarrow> jsnum \<Rightarrow> jsnum" where
  "jadd NaN _ = NaN"
| "jadd _ NaN = NaN"
| "jadd (Fin a) (Fin b) = Fin (a + b)"
| "jadd PInf NInf = NaN"
| "jadd NInf PInf = NaN"
| "jadd PInf _ = PInf"
| "jadd _ PInf = PInf"
| "jadd NInf _ = NInf"
| "jadd _ NInf = NInf"

definition jsub :: "jsnum \<Rightarrow> jsnum \<Rightarrow> jsnum" where
  "jsub a b = jadd a (jneg b)"

fun jmul :: "jsnum \<Rightarrow> jsnum \<Rightarrow> jsnum" where
  "jmul NaN _ = NaN"
| "jmul _ NaN = NaN"
| "jmul (Fin a) (Fin b) = Fin (a * b)"
| "jmul (Fin a) PInf = (if a = 0 then NaN else if 0 < a then PInf else NInf)"
| "jmul (Fin a) NInf = (if a = 0 then NaN else if 0 < a then NInf else PInf)"
| "jmul PInf (Fin b) = (if b = 0 then NaN else if 0 < b then PInf else NInf)"
| "jmul NInf (Fin b) = (if b = 0 then NaN else if 0 < b then NInf else PInf)"
| "jmul PInf PInf = PInf"
| "jmul NInf NInf = PInf"
| "jmul PInf NInf = NInf"
| "jmul NInf PInf = NInf"

fun jdiv :: "jsnum \<Rightarrow> jsnum \<Rightarrow> jsnum" where
  "jdiv NaN _ = NaN"
| "jdiv _ NaN = NaN"
| "jdiv (Fin a) (Fin b) =
     (if b \<noteq> 0 then Fin (a / b)
      else if a = 0 then NaN else if 0 < a then PInf else NInf)"
| "jdiv (Fin a) PInf = Fin 0"
| "jdiv (Fin a) NInf = Fin 0"
| "jdiv PInf (Fin b) = (if 0 \<le> b then PInf else NInf)"
| "jdiv NInf (Fin b) = (if 0 \<le> b then NInf else PInf)"
| "jdiv PInf _ = NaN"
| "jdiv NInf _ = NaN"

text \<open>\<open>a < b\<close> on JavaScript numbers: false as soon as one side is \<open>NaN\<close>.\<close>

fun jlt :: "jsnum \<Rightarrow> jsnum \<Rightarrow> bool" where
  "jlt NaN _ = False"
| "jlt _ NaN = False"
| "jlt (Fin a) (Fin b) = (a < b)"
| "jlt _ NInf = False"
| "jlt PInf _ = False"
| "jlt NInf _ = True"
| "jlt _ PInf = True"

definition jgt :: "jsnum \<Rightarrow> jsnum \<Rightarrow> bool" where
  "jgt a b = jlt b a"

fun jle :: "jsnum \<Rightarrow> jsnum \<Rightarrow> bool" where
  "jle NaN _ = False"
| "jle _ NaN = False"
| "jle a b = (a = b \<or> jlt a b)"

text \<open>\<open>Math.min\<close>, \<open>Math.max\<close> and \<open>Math.abs\<close>: \<open>NaN\<close> as soon as an argument is.\<close>

fun jmin :: "jsnum \<Rightarrow> jsnum \<Rightarrow> jsnum" where
  "jmin NaN _ = NaN"
| "jmin _ NaN = NaN"
| "jmin a b = (if jlt b a then b else a)"

fun jmax :: "jsnum \<Rightarrow> jsnum \<Rightarrow> jsnum" where
  "jmax NaN _ = NaN"
| "jmax _ NaN = NaN"
| "jmax a b = (if jlt a b then b else a)"

fun jabs :: "jsnum \<Rightarrow> jsnum" where
  "jabs (Fin a) = Fin \<bar>a\<bar>"
| "jabs PInf = PInf"
| "jabs NInf = PInf"
| "jabs NaN = NaN"


text \<open>
  \<open>Math.sqrt\<close>, and \<open>Math.pow\<close> for a finite exponent (the program raises to \<open>2\<close> and to
  \<open>252 / tradingDays\<close> only).
\<close>

fun jsqrt :: "jsnum \<Rightarrow> jsnum" where
  "jsqrt (Fin a) = (if 0 \<le> a then Fin (sqrt a) else NaN)"
| "jsqrt PInf = PInf"
| "jsqrt NInf = NaN"
| "jsqrt NaN = NaN"

definition isInt :: "real \<Rightarrow> bool" where
  "isInt e = (e = real_of_int \<lfloor>e\<rfloor>)"

definition jpow :: "jsnum \<Rightarrow> real \<Rightarrow> jsnum" where
  "jpow x e =
     (if e = 0 then Fin 1
      else case x of
             NaN \<Rightarrow> NaN
           | PInf \<Rightarrow> (if 0 < e then PInf else Fin 0)
           | NInf \<Rightarrow> (if 0 < e then (if isInt e \<and> odd \<lfloor>e\<rfloor> then NInf else PInf) else Fin 0)
           | Fin b \<Rightarrow>
               (if 0 < b then Fin (b powr e)
                else if b = 0 then (if 0 < e then Fin 0 else PInf)
                else if isInt e
                     then Fin (if 0 \<le> e then b ^ nat \<lfloor>e\<rfloor> else 1 / b ^ nat \<lfloor>- e\<rfloor>)
                     else NaN))"


section \<open>Rounding to double precision\<close>

text \<open>
  Where a claim is about the exact value of a result, the arithmetic of the code is
  modelled with its rounding: every operation on finite numbers returns the exact result
  rounded to the nearest number of 53 significant bits, ties to the even one, as IEEE 754
  prescribes for a double.  The exponent range is not bounded: overflow and underflow are
  not modelled.

  \<open>expo a\<close> is the binary exponent of a positive \<open>a\<close>, the \<open>e\<close> with
  \<open>2^e \<le> a < 2^(e+1)\<close>, and \<open>fl x\<close> the double nearest to \<open>x\<close>; a decimal literal \<open>0.3\<close>
  of the source is \<open>fl (3 / 10)\<close>.
\<close>

definition pow2 :: "int \<Rightarrow> real" where
  "pow2 k = (if 0 \<le> k then 2 ^ nat k else 1 / 2 ^ nat (- k))"

definition expo :: "real \<Rightarrow> int" where
  "expo a = (if 1 \<le> a then bitlen \<lfloor>a\<rfloor> - 1 else - bitlen (\<lceil>1 / a\<rceil> - 1))"

definition roundEven :: "real \<Rightarrow> int" where
  "roundEven y =
     (let f = \<lfloor>y\<rfloor>; r = y - real_of_int f
      in if r < 1 / 2 then f else if 1 / 2 < r then f + 1 else if even f then f else f + 1)"

definition fl :: "real \<Rightarrow> real" where
  "fl x = (if x = 0 then 0
           else (let q = pow2 (expo \<bar>x\<bar> - 52) in real_of_int (roundEven (x / q)) * q))"

fun jround :: "jsnum \<Rightarrow> jsnum" where
  "jround (Fin a) = Fin (fl a)"
| "jround PInf = PInf"
| "jround NInf = NInf"
| "jround NaN = NaN"

text \<open>The four operations of the code on doubles: \<open>+\<close>, \<open>-\<close>, \<open>*\<close> and \<open>/\<close>.\<close>

definition dadd :: "jsnum \<Rightarrow> jsnum \<Rightarrow> jsnum" where
  "dadd a b = jround (jadd a b)"

definition dsub :: "jsnum \<Rightarrow> jsnum \<Rightarrow> jsnum" where
  "dsub a b = jround (jsub a b)"

definition dmul :: "jsnum \<Rightarrow> jsnum \<Rightarrow> jsnum" where
  "dmul a b = jround (jmul a b)"

definition ddiv :: "jsnum \<Rightarrow> jsnum \<Rightarrow> jsnum" where
  "ddiv a b = jround (jdiv a b)"

text \<open>
  The distance between a computed and an exact value is counted in roundings: one
  rounding multiplies a value by a factor between \<open>rho\<close> and \<open>1 / rho\<close>, where
  \<open>rho = 1 - 2^-53\<close>, and \<open>near k x y\<close> says that the non-negative \<open>x\<close> and \<open>y\<close> are
  within \<open>k\<close> such factors of each other.  \<open>withinRel r d t\<close> says that the result \<open>r\<close>
  is a finite number whose distance to \<open>d\<close> is at most \<open>t\<close> times \<open>d\<close>.
\<close>

definition rho :: real where
  "rho = 1 - 1 / 2 ^ 53"

definition near :: "nat \<Rightarrow> real \<Rightarrow> real \<Rightarrow> bool" where
  "near k x y = (0 \<le> x \<and> 0 \<le> y \<and> y * rho ^ k \<le> x \<and> x * rho ^ k \<le> y)"

fun withinRel :: "jsnum \<Rightarrow> real \<Rightarrow> real \<Rightarrow> bool" where
  "withinRel (Fin x) d t = (\<bar>x - d\<bar> \<le> t * d)"
| "withinRel _ d t = False"


section \<open>The CPPI policy engine (cppi.ts)\<close>

text \<open>
  The nested objects of \<open>CPPIConfig\<close> are records of their own; the fields of each
  record carry a prefix, since several of them share the names \<open>debit\<close>, \<open>credit\<close>,
  \<open>straddle\<close> and \<open>hedge\<close>.  Configuration values and sleeve equities are finite numbers
  (they are read from JSON, which has no other), computed weights are \<open>jsnum\<close>.
\<close>

record RiskySplit =
  rs_debit :: real
  rs_credit :: real
  rs_straddle :: real
  rs_hedgeFixed :: real

record BaseRiskPct =
  br_debit :: real
  br_credit :: real
  br_straddle :: real
  br_hedge :: real

record MinTickets =
  mt_debit :: real
  mt_creditMaxLoss :: real
  mt_straddle :: real
  mt_hedge :: real

record CPPIConfig =
  floorPct :: real
  cppiM :: real
  riskScaleOptions :: real
  riskySplit :: RiskySplit
  driftBandAbs :: real
  rebalanceEveryWeeks :: real
  weeklyDeposit :: real
  baseRiskPct :: BaseRiskPct
  minTickets :: MinTickets

record SleeveWeights =
  w_debit :: jsnum
  w_credit :: jsnum
  w_straddle :: jsnum
  w_collar :: jsnum
  w_hedge :: jsnum

record SleeveEquities =
  e_debit :: real
  e_credit :: real
  e_straddle :: real
  e_collar :: real
  e_hedge :: real
  e_total :: real

record CPPIMetrics =
  investedToDate :: real
  floor_ :: real
  cushion :: real
  riskyWeight :: jsnum
  targetWeights :: SleeveWeights
  currentWeights :: SleeveWeights
  needsRebalance :: bool
  weeksSinceStart :: int

text \<open>
  The engine object: its configuration, its start date and the week of the last executed
  rebalance.  Dates are the millisecond counts \<open>getTime()\<close> returns.
\<close>

record CPPIEngine =
  config :: CPPIConfig
  startDate :: int
  lastRebalanceWeek :: int

definition msPerWeek :: int where
  "msPerWeek = 7 * 24 * 60 * 60 * 1000"

definition getWeeksSinceStart :: "CPPIEngine \<Rightarrow> int \<Rightarrow> int" where
  "getWeeksSinceStart eng currentDate =
     \<lfloor>real_of_int (currentDate - startDate eng) / real_of_int msPerWeek\<rfloor>"

definition computeInvestedToDate :: "CPPIEngine \<Rightarrow> int \<Rightarrow> real" where
  "computeInvestedToDate eng currentDate =
     (let weeks = getWeeksSinceStart eng currentDate
      in 10000 + weeklyDeposit (config eng) * real_of_int weeks)"

definition computeTargetWeights :: "CPPIConfig \<Rightarrow> jsnum \<Rightarrow> SleeveWeights" where
  "computeTargetWeights cfg rw =
     (let riskyDebit = jmul rw (Fin (rs_debit (riskySplit cfg)));
          riskyCredit = jmul rw (Fin (rs_credit (riskySplit cfg)));
          riskyStraddle = jmul rw (Fin (rs_straddle (riskySplit cfg)));
          fixedHedge = Fin (rs_hedgeFixed (riskySplit cfg));
          collar = jmax (Fin 0)
            (jsub (jsub (jsub (jsub (Fin 1) riskyDebit) riskyCredit) riskyStraddle) fixedHedge)
      in \<lparr>w_debit = riskyDebit, w_credit = riskyCredit, w_straddle = riskyStraddle,
          w_collar = collar, w_hedge = fixedHedge\<rparr>)"

definition computeCurrentWeights :: "SleeveEquities \<Rightarrow> SleeveWeights" where
  "computeCurrentWeights eq =
     (if e_total eq \<le> 0
      then \<lparr>w_debit = Fin 0, w_credit = Fin 0, w_straddle = Fin 0,
            w_collar = Fin 0, w_hedge = Fin 0\<rparr>
      else \<lparr>w_debit = jdiv (Fin (e_debit eq)) (Fin (e_total eq)),
            w_credit = jdiv (Fin (e_credit eq)) (Fin (e_total eq)),
            w_straddle = jdiv (Fin (e_straddle eq)) (Fin (e_total eq)),
            w_collar = jdiv (Fin (e_collar eq)) (Fin (e_total eq)),
            w_hedge = jdiv (Fin (e_hedge eq)) (Fin (e_total eq))\<rparr>)"

text \<open>The five sleeves in the order the drift loop visits them.\<close>

definition sleeves :: "(SleeveWeights \<Rightarrow> jsnum) list" where
  "sleeves = [w_debit, w_credit, w_straddle, w_collar, w_hedge]"

definition shouldRebalance ::
  "CPPIEngine \<Rightarrow> SleeveWeights \<Rightarrow> SleeveWeights \<Rightarrow> int \<Rightarrow> bool" where
  "shouldRebalance eng target current weeks =
     (if real_of_int weeks
           < real_of_int (lastRebalanceWeek eng) + rebalanceEveryWeeks (config eng)
      then False
      else list_ex (\<lambda>sleeve. jgt (jabs (jsub (sleeve current) (sleeve target)))
                                  (Fin (driftBandAbs (config eng)))) sleeves)"

definition computeCPPIMetrics :: "CPPIEngine \<Rightarrow> SleeveEquities \<Rightarrow> int \<Rightarrow> CPPIMetrics" where
  "computeCPPIMetrics eng eq currentDate =
     (let weeks = getWeeksSinceStart eng currentDate;
          invested = computeInvestedToDate eng currentDate;
          floor = floorPct (config eng) * invested;
          cush = max (e_total eq - floor) 0;
          rw = jmin (jdiv (Fin (cppiM (config eng) * cush)) (Fin (e_total eq))) (Fin 1);
          target = computeTargetWeights (config eng) rw;
          current = computeCurrentWeights eq;
          rebalance = shouldRebalance eng target current weeks
      in \<lparr>investedToDate = invested, floor_ = floor, cushion = cush, riskyWeight = rw,
          targetWeights = target, currentWeights = current, needsRebalance = rebalance,
          weeksSinceStart = weeks\<rparr>)"

text \<open>The sum \<open>debit + credit + straddle + collar + hedge\<close> of a weight or dollar vector.\<close>

definition sleeveSum :: "SleeveWeights \<Rightarrow> jsnum" where
  "sleeveSum w = jadd (jadd (jadd (jadd (w_debit w) (w_credit w)) (w_straddle w)) (w_collar w))
                      (w_hedge w)"

text \<open>
  The sum \<open>debit + credit + straddle + collar + hedge\<close> as the code computes it, from
  left to right and in doubles.
\<close>

definition sleeveTotal :: "SleeveWeights \<Rightarrow> jsnum" where
  "sleeveTotal w = dadd (dadd (dadd (dadd (w_debit w) (w_credit w)) (w_straddle w)) (w_collar w))
                        (w_hedge w)"

text \<open>
  \<open>computeContributionsAllocation\<close>, in doubles.  Its local constants \<open>targetDollars\<close>
  and \<open>shortfalls\<close> are definitions of their own.  The source lets \<open>allocation\<close> alias
  \<open>shortfalls\<close> and adds the pro-rata share of the remainder in place; the model builds
  the resulting record.
\<close>

definition targetDollars :: "SleeveWeights \<Rightarrow> SleeveEquities \<Rightarrow> real \<Rightarrow> SleeveWeights" where
  "targetDollars target eq deposit =
     (let targetTotalAfterDeposit = dadd (Fin (e_total eq)) (Fin deposit)
      in \<lparr>w_debit = dmul (w_debit target) targetTotalAfterDeposit,
          w_credit = dmul (w_credit target) targetTotalAfterDeposit,
          w_straddle = dmul (w_straddle target) targetTotalAfterDeposit,
          w_collar = dmul (w_collar target) targetTotalAfterDeposit,
          w_hedge = dmul (w_hedge target) targetTotalAfterDeposit\<rparr>)"

definition shortfalls :: "SleeveWeights \<Rightarrow> SleeveEquities \<Rightarrow> real \<Rightarrow> SleeveWeights" where
  "shortfalls target eq deposit =
     (let td = targetDollars target eq deposit
      in \<lparr>w_debit = jmax (Fin 0) (dsub (w_debit td) (Fin (e_debit eq))),
          w_credit = jmax (Fin 0) (dsub (w_credit td) (Fin (e_credit eq))),
          w_straddle = jmax (Fin 0) (dsub (w_straddle td) (Fin (e_straddle eq))),
          w_collar = jmax (Fin 0) (dsub (w_collar td) (Fin (e_collar eq))),
          w_hedge = jmax (Fin 0) (dsub (w_hedge td) (Fin (e_hedge eq)))\<rparr>)"

definition computeContributionsAllocation ::
  "SleeveWeights \<Rightarrow> SleeveEquities \<Rightarrow> real \<Rightarrow> SleeveWeights" where
  "computeContributionsAllocation target eq deposit =
     (let sh = shortfalls target eq deposit;
          totalShortfall = sleeveTotal sh
      in if jle totalShortfall (Fin deposit)
         then (let remaining = dsub (Fin deposit) totalShortfall
               in if jgt remaining (Fin 0)
                  then (let totalTarget = sleeveTotal target
                        in \<lparr>w_debit = dadd (w_debit sh)
                                            (dmul remaining (ddiv (w_debit target) totalTarget)),
                            w_credit = dadd (w_credit sh)
                                            (dmul remaining (ddiv (w_credit target) totalTarget)),
                            w_straddle = dadd (w_straddle sh)
                                            (dmul remaining (ddiv (w_straddle target) totalTarget)),
                            w_collar = dadd (w_collar sh)
                                            (dmul remaining (ddiv (w_collar target) totalTarget)),
                            w_hedge = dadd (w_hedge sh)
                                            (dmul remaining (ddiv (w_hedge target) totalTarget))\<rparr>)
                  else sh)
         else (let scaleFactor = ddiv (Fin deposit) totalShortfall
               in \<lparr>w_debit = dmul (w_debit sh) scaleFactor,
                   w_credit = dmul (w_credit sh) scaleFactor,
                   w_straddle = dmul (w_straddle sh) scaleFactor,
                   w_collar = dmul (w_collar sh) scaleFactor,
                   w_hedge = dmul (w_hedge sh) scaleFactor\<rparr>))"

definition createDefaultCPPIConfig :: CPPIConfig where
  "createDefaultCPPIConfig =
     \<lparr>floorPct = 85 / 100, cppiM = 4, riskScaleOptions = 125 / 100,
      riskySplit = \<lparr>rs_debit = 60 / 100, rs_credit = 15 / 100, rs_straddle = 25 / 100,
                    rs_hedgeFixed = 2 / 100\<rparr>,
      driftBandAbs = 10 / 100, rebalanceEveryWeeks = 4, weeklyDeposit = 50,
      baseRiskPct = \<lparr>br_debit = 6 / 100, br_credit = 2 / 100, br_straddle = 4 / 100,
                     br_hedge = 1 / 100\<rparr>,
      minTickets = \<lparr>mt_debit = 30, mt_creditMaxLoss = 100, mt_straddle = 50, mt_hedge = 5\<rparr>\<rparr>"

text \<open>
  The formula of the specification for the capital invested so far, with the initial
  capital as a parameter of the run.
\<close>

definition investedToDate_spec :: "real \<Rightarrow> real \<Rightarrow> int \<Rightarrow> real" where
  "investedToDate_spec initialCapital deposit weeks = initialCapital + deposit * real_of_int weeks"


section \<open>The backtesting engine: data\<close>

text \<open>
  The interfaces of the backtester as records; the fields carry a prefix per record, for
  the interfaces share the names \<open>date\<close>, \<open>symbol\<close> and \<open>price\<close>.  An optional field
  is an \<open>option\<close>.
\<close>

datatype OptionType = CALL | PUT

datatype Side = BUY | SELL

datatype DataSource = Mock | Historical

record BacktestConfig =
  bc_startDate :: string
  bc_endDate :: string
  bc_initialCapital :: real
  bc_universe :: "string list"
  bc_strategies :: "string list"
  bc_dataSource :: DataSource
  bc_riskFreeRate :: real
  bc_commissionPerContract :: real

record MarketData =
  md_date :: string
  md_symbol :: string
  md_price :: real
  md_volume :: real
  md_impliedVol :: "real option"

record OptionData =
  od_date :: string
  od_symbol :: string
  od_underlying :: string
  od_strike :: real
  od_expiry :: string
  od_optionType :: OptionType
  od_price :: real
  od_delta :: "real option"
  od_gamma :: "real option"
  od_theta :: "real option"
  od_vega :: "real option"
  od_impliedVol :: "real option"
  od_openInterest :: "real option"

text \<open>
  A trade id is the text \<open>Date.now()\<close>, an underscore and nine base-36 digits of
  \<open>Math.random()\<close>.  The model keeps the two values the text is printed from.
\<close>

record TradeId =
  id_now :: int
  id_random :: real

record BacktestTrade =
  t_id :: TradeId
  t_date :: string
  t_symbol :: string
  t_side :: Side
  t_quantity :: real
  t_price :: real
  t_commission :: real
  t_strategy :: string

record Leg =
  leg_symbol :: string
  leg_side :: Side
  leg_quantity :: real
  leg_price :: real

text \<open>
  What the program takes from its host and not from its own state: the successive results
  of \<open>Math.random()\<close>, the clock read by \<open>Date.now()\<close> when the \<open>n\<close>-th trade is
  recorded, the milliseconds \<open>new Date(text).getTime()\<close> gives (\<open>None\<close> for an invalid
  date) and the number \<open>Number(text)\<close> gives.
\<close>

record Host =
  mathRandom :: "nat \<Rightarrow> real"
  dateNow :: "nat \<Rightarrow> int"
  jsDate :: "string \<Rightarrow> int option"
  jsNumber :: "string \<Rightarrow> jsnum"

text \<open>
  The engine object.  The two \<open>Map\<close>s of loaded data and the portfolio \<open>Map\<close> are
  association lists in insertion order, which is the order a \<open>Map\<close> iterates in.  The
  field \<open>randomCalls\<close> is not a field of the class: it counts the calls of
  \<open>Math.random()\<close> made so far, the position on the host's tape.
\<close>

record BacktestEngine =
  bconfig :: BacktestConfig
  marketData :: "(string \<times> MarketData list) list"
  optionData :: "(string \<times> OptionData list) list"
  trades :: "BacktestTrade list"
  portfolio :: "(string \<times> real) list"
  cash :: real
  currentDate :: string
  randSeed :: "32 word"
  randomCalls :: nat

datatype error = TypeError


section \<open>The pricing kernel of the mock data generator\<close>

text \<open>
  \<open>erf\<close>, \<open>normalCDF\<close> and \<open>calculateOptionPrice\<close> over the reals, with \<open>Math.exp\<close>,
  \<open>Math.log\<close> and \<open>Math.sqrt\<close> as \<open>exp\<close>, \<open>ln\<close> and \<open>sqrt\<close>.  The model is that of
  the code for a positive spot, strike, time to expiry and volatility, where no divisor is
  zero and the logarithm has a positive argument.
\<close>

definition erf :: "real \<Rightarrow> real" where
  "erf x0 =
     (let a1 = 254829592 / 10 ^ 9;
          a2 = - 284496736 / 10 ^ 9;
          a3 = 1421413741 / 10 ^ 9;
          a4 = - 1453152027 / 10 ^ 9;
          a5 = 1061405429 / 10 ^ 9;
          p = 3275911 / 10 ^ 7;
          sign = (if x0 < 0 then - 1 else 1);
          x = \<bar>x0\<bar>;
          t = 1 / (1 + p * x);
          y = 1 - (((((a5 * t + a4) * t) + a3) * t + a2) * t + a1) * t * exp (- x * x)
      in sign * y)"

definition normalCDF :: "real \<Rightarrow> real" where
  "normalCDF x = (1 + erf (x / sqrt 2)) / 2"

definition calculateOptionPrice :: "real \<Rightarrow> real \<Rightarrow> real \<Rightarrow> real \<Rightarrow> OptionType \<Rightarrow> real" where
  "calculateOptionPrice spot strike timeToExpiry vol type =
     (let riskFreeRate = 5 / 100;
          d1 = (ln (spot / strike) + (riskFreeRate + (1 / 2) * vol ^ 2) * timeToExpiry)
               / (vol * sqrt timeToExpiry);
          d2 = d1 - vol * sqrt timeToExpiry
      in if type = CALL
         then spot * normalCDF d1 - strike * exp (- riskFreeRate * timeToExpiry) * normalCDF d2
         else strike * exp (- riskFreeRate * timeToExpiry) * normalCDF (- d2)
              - spot * normalCDF (- d1))"


text \<open>
  The sum \<open>normalCDF x + normalCDF (- x)\<close>, through which the call and the put of one
  strike and expiry are related.
\<close>

definition cdfPair :: "real \<Rightarrow> real" where
  "cdfPair x = normalCDF x + normalCDF (- x)"


section \<open>The backtesting engine: trade execution and the ledger\<close>

text \<open>
  The engine's own generator, a linear congruential one on 32 bits:
  \<open>randSeed = (1664525 * randSeed + 1013904223) >>> 0\<close>.  The product stays below
  \<open>2^53\<close>, so the double arithmetic of the source is exact and the result is the
  32-bit word.  The function returns the draw and the new seed.
\<close>

definition rnd :: "32 word \<Rightarrow> real \<times> 32 word" where
  "rnd seed = (let seed' = 1664525 * seed + 1013904223
               in (real (unat seed') / 4294967296, seed'))"

text \<open>\<open>this.portfolio.get(symbol) || 0\<close>.\<close>

definition positionOf :: "(string \<times> real) list \<Rightarrow> string \<Rightarrow> real" where
  "positionOf pf symbol = (case map_of pf symbol of None \<Rightarrow> 0 | Some q \<Rightarrow> q)"

text \<open>
  The local constant \<open>executedPrice\<close> of \<open>executeTrade\<close>: the quoted price moved
  against the trader by a slippage of 0.5% to 2%, drawn from the engine's generator, and
  not below one cent.
\<close>

definition executedPrice :: "32 word \<Rightarrow> Side \<Rightarrow> real \<Rightarrow> real" where
  "executedPrice seed side price =
     (let slippagePct = 5 / 1000 + fst (rnd seed) * (15 / 1000)
      in max (1 / 100) (price + price * slippagePct * (if side = BUY then 1 else - 1)))"

definition executeTrade ::
  "Host \<Rightarrow> string \<Rightarrow> Side \<Rightarrow> real \<Rightarrow> real \<Rightarrow> string \<Rightarrow> string \<Rightarrow> BacktestEngine
   \<Rightarrow> BacktestEngine" where
  "executeTrade h symbol side quantity price strategy date s =
     (let commission = bc_commissionPerContract (bconfig s) * quantity;
          price' = executedPrice (randSeed s) side price;
          s1 = s\<lparr>randSeed := snd (rnd (randSeed s))\<rparr>;
          gross = price' * quantity * 100
      in if side = BUY \<and> gross + commission > cash s1 then s1
         else
          (let currentPosition = positionOf (portfolio s1) symbol;
               newPosition = currentPosition + (if side = BUY then quantity else - quantity);
               pf = (if newPosition = 0 then AList.delete symbol (portfolio s1)
                     else AList.update symbol newPosition (portfolio s1));
               cash' = (if side = BUY then cash s1 - (gross + commission)
                        else cash s1 + (gross - commission));
               trade = \<lparr>t_id = \<lparr>id_now = dateNow h (length (trades s1)),
                                 id_random = mathRandom h (randomCalls s1)\<rparr>,
                        t_date = date, t_symbol = symbol, t_side = side,
                        t_quantity = quantity, t_price = price',
                        t_commission = commission, t_strategy = strategy\<rparr>
           in s1\<lparr>portfolio := pf, cash := cash', trades := trades s1 @ [trade],
                 randomCalls := randomCalls s1 + 1\<rparr>))"

text \<open>
  \<open>text.split('_')\<close>, and the destructuring of its result: a part that is missing is
  \<open>undefined\<close>, here \<open>None\<close>, which a template literal prints as \<open>undefined\<close>.
\<close>

fun splitOn :: "char \<Rightarrow> string \<Rightarrow> string list" where
  "splitOn c [] = [[]]"
| "splitOn c (x # xs) =
     (if x = c then [] # splitOn c xs
      else (case splitOn c xs of [] \<Rightarrow> [[x]] | p # ps \<Rightarrow> (x # p) # ps))"

definition part :: "string list \<Rightarrow> nat \<Rightarrow> string option" where
  "part ps i = (if i < length ps then Some (ps ! i) else None)"

definition tmpl :: "string option \<Rightarrow> string" where
  "tmpl x = (case x of None \<Rightarrow> ''undefined'' | Some t \<Rightarrow> t)"

text \<open>\<open>this.optionData.get(optionKey)?.find(opt => opt.symbol === symbol)\<close>.\<close>

definition todayOpt :: "BacktestEngine \<Rightarrow> string option \<Rightarrow> string \<Rightarrow> OptionData option" where
  "todayOpt s underlying symbol =
     (case map_of (optionData s) (tmpl underlying @ ''_'' @ currentDate s) of
        None \<Rightarrow> None
      | Some opts \<Rightarrow> find (\<lambda>opt. od_symbol opt = symbol) opts)"

text \<open>\<open>today > expiry\<close> on two \<open>Date\<close> objects: false when one of them is invalid.\<close>

definition dateAfter :: "int option \<Rightarrow> int option \<Rightarrow> bool" where
  "dateAfter today expiry =
     (case (today, expiry) of (Some t, Some e) \<Rightarrow> e < t | _ \<Rightarrow> False)"

definition intrinsicValue :: "string option \<Rightarrow> real \<Rightarrow> jsnum \<Rightarrow> jsnum" where
  "intrinsicValue typeStr price strike =
     (if typeStr = Some ''CALL'' then jmax (Fin 0) (jsub (Fin price) strike)
      else if typeStr = Some ''PUT'' then jmax (Fin 0) (jsub strike (Fin price))
      else Fin 0)"

text \<open>
  The body of the loop of \<open>calculatePortfolioValue\<close> for one entry of the portfolio: it
  takes and returns the running value and the portfolio.
\<close>

definition markPosition ::
  "Host \<Rightarrow> BacktestEngine \<Rightarrow> string \<times> real \<Rightarrow> jsnum \<times> (string \<times> real) list
   \<Rightarrow> jsnum \<times> (string \<times> real) list" where
  "markPosition h s entry acc =
     (let (symbol, quantity) = entry;
          (value, pf) = acc;
          parts = splitOn CHR ''_'' symbol;
          underlying = part parts 0;
          expiryStr = part parts 1;
          strikeStr = part parts 2;
          typeStr = part parts 3
      in case todayOpt s underlying symbol of
           Some opt \<Rightarrow> (jadd value (Fin (od_price opt * quantity * 100)), pf)
         | None \<Rightarrow>
            (let today = jsDate h (currentDate s);
                 expiry = (case expiryStr of None \<Rightarrow> None | Some e \<Rightarrow> jsDate h e)
             in if dateAfter today expiry
                then (let strike = (case strikeStr of None \<Rightarrow> NaN | Some k \<Rightarrow> jsNumber h k);
                          md = (case underlying of None \<Rightarrow> []
                                | Some u \<Rightarrow> (case map_of (marketData s) u of
                                               None \<Rightarrow> [] | Some m \<Rightarrow> m));
                          atExp = find (\<lambda>m. Some (md_date m) = expiryStr) md;
                          value' = (case atExp of
                                      None \<Rightarrow> value
                                    | Some m \<Rightarrow>
                                        jadd value
                                          (jmul (jmul (intrinsicValue typeStr (md_price m) strike)
                                                      (Fin quantity)) (Fin 100)))
                      in (value', AList.delete symbol pf))
                else (value, pf)))"

text \<open>
  \<open>calculatePortfolioValue\<close> returns the value and the engine, whose portfolio has lost
  the positions the loop dropped.  The loop visits the entries the portfolio had at its
  start: deleting the entry being visited does not disturb the iteration of a \<open>Map\<close>.
\<close>

definition calculatePortfolioValue :: "Host \<Rightarrow> BacktestEngine \<Rightarrow> jsnum \<times> BacktestEngine" where
  "calculatePortfolioValue h s =
     (let (value, pf) = fold (markPosition h s) (portfolio s) (Fin (cash s), portfolio s)
      in (value, s\<lparr>portfolio := pf\<rparr>))"


text \<open>What one entry of the portfolio adds to the running value.\<close>

definition entryValue :: "Host \<Rightarrow> BacktestEngine \<Rightarrow> string \<times> real \<Rightarrow> jsnum" where
  "entryValue h s entry = fst (markPosition h s entry (Fin 0, []))"


section \<open>The backtesting engine: strategy leg builders\<close>

text \<open>
  \<open>arr.reduce(f)\<close> without an initial value: a \<open>TypeError\<close> on the empty array,
  otherwise the fold from the first element over the rest.
\<close>

definition reduce1 :: "('a \<Rightarrow> 'a \<Rightarrow> 'a) \<Rightarrow> 'a list \<Rightarrow> error + 'a" where
  "reduce1 f xs = (case xs of [] \<Rightarrow> Inl TypeError | x # rest \<Rightarrow> Inr (foldl f x rest))"

definition nearestBy :: "'a list \<Rightarrow> ('a \<Rightarrow> jsnum) \<Rightarrow> real \<Rightarrow> error + 'a" where
  "nearestBy arr metric target =
     reduce1 (\<lambda>best x. if jlt (jabs (jsub (metric x) (Fin target)))
                               (jabs (jsub (metric best) (Fin target)))
                        then x else best) arr"

text \<open>The metrics \<open>o => Math.abs(o.delta!)\<close> and \<open>o => o.strike\<close>.\<close>

definition absDelta :: "OptionData \<Rightarrow> jsnum" where
  "absDelta opt = (case od_delta opt of None \<Rightarrow> NaN | Some d \<Rightarrow> Fin \<bar>d\<bar>)"

definition strikeOf :: "OptionData \<Rightarrow> jsnum" where
  "strikeOf opt = Fin (od_strike opt)"

text \<open>The leg \<open>{symbol, side, quantity: 1, price}\<close> of a chosen contract.\<close>

definition legOf :: "OptionData \<Rightarrow> Side \<Rightarrow> Leg" where
  "legOf opt side =
     \<lparr>leg_symbol = od_symbol opt, leg_side = side, leg_quantity = 1, leg_price = od_price opt\<rparr>"

text \<open>
  \<open>arr[Math.floor(r * arr.length)]\<close>: \<open>undefined\<close>, here \<open>None\<close>, when the index is
  outside the array.
\<close>

definition pickAt :: "'a list \<Rightarrow> real \<Rightarrow> 'a option" where
  "pickAt xs r =
     (let i = \<lfloor>r * real (length xs)\<rfloor>
      in if 0 \<le> i \<and> nat i < length xs then Some (xs ! nat i) else None)"

text \<open>
  The tests \<open>if (!longCall) return []\<close> after \<open>nearestBy\<close> never fire: \<open>nearestBy\<close>
  returns an element of the array or throws.  They are left out.
\<close>

definition buildDebitCallVertical :: "OptionData list \<Rightarrow> error + Leg list" where
  "buildDebitCallVertical options =
     (let calls = filter (\<lambda>opt. od_optionType opt = CALL \<and> od_delta opt \<noteq> None) options
      in if length calls < 2 then Inr []
         else case nearestBy calls absDelta (30 / 100) of
                Inl e \<Rightarrow> Inl e
              | Inr longCall \<Rightarrow>
                  (case (case find (\<lambda>c. od_strike c > od_strike longCall) calls of
                           Some c \<Rightarrow> Inr c
                         | None \<Rightarrow> nearestBy calls strikeOf (od_strike longCall + 5)) of
                     Inl e \<Rightarrow> Inl e
                   | Inr shortCall \<Rightarrow> Inr [legOf longCall BUY, legOf shortCall SELL]))"

definition buildCreditPutSpread :: "OptionData list \<Rightarrow> error + Leg list" where
  "buildCreditPutSpread options =
     (let puts = filter (\<lambda>opt. od_optionType opt = PUT \<and> od_delta opt \<noteq> None) options
      in if length puts < 2 then Inr []
         else case nearestBy puts absDelta (22 / 100) of
                Inl e \<Rightarrow> Inl e
              | Inr shortPut \<Rightarrow>
                  (case nearestBy puts strikeOf (od_strike shortPut - 5) of
                     Inl e \<Rightarrow> Inl e
                   | Inr longPut \<Rightarrow> Inr [legOf shortPut SELL, legOf longPut BUY]))"

definition buildATMStraddle ::
  "BacktestEngine \<Rightarrow> OptionData list \<Rightarrow> string option \<Rightarrow> error + Leg list" where
  "buildATMStraddle s options underlying =
     (case (case underlying of
              None \<Rightarrow> None
            | Some u \<Rightarrow> (case map_of (marketData s) u of
                           None \<Rightarrow> None
                         | Some md \<Rightarrow> find (\<lambda>m. md_date m = currentDate s) md)) of
        None \<Rightarrow> Inr []
      | Some m \<Rightarrow>
          (let spot = md_price m;
               calls = filter (\<lambda>opt. od_optionType opt = CALL) options;
               puts = filter (\<lambda>opt. od_optionType opt = PUT) options
           in case reduce1 (\<lambda>prev curr. if \<bar>od_strike curr - spot\<bar> < \<bar>od_strike prev - spot\<bar>
                                          then curr else prev) calls of
                Inl e \<Rightarrow> Inl e
              | Inr atmCall \<Rightarrow>
                  (case find (\<lambda>p. od_strike p = od_strike atmCall) puts of
                     None \<Rightarrow> Inr []
                   | Some atmPut \<Rightarrow> Inr [legOf atmCall BUY, legOf atmPut BUY])))"

text \<open>
  \<open>buildCashSecuredPut\<close> draws from \<open>Math.random()\<close>; it returns the legs and the engine
  with the draw counted.
\<close>

definition buildCashSecuredPut ::
  "Host \<Rightarrow> BacktestEngine \<Rightarrow> OptionData list \<Rightarrow> error + (Leg list \<times> BacktestEngine)" where
  "buildCashSecuredPut h s options =
     (let puts = filter (\<lambda>opt. od_optionType opt = PUT
                          \<and> (case od_delta opt of
                                None \<Rightarrow> False
                              | Some d \<Rightarrow> d \<noteq> 0 \<and> \<bar>d\<bar> > 2 / 10 \<and> \<bar>d\<bar> < 3 / 10)) options
      in if puts = [] then Inr ([], s)
         else case pickAt puts (mathRandom h (randomCalls s)) of
                None \<Rightarrow> Inl TypeError
              | Some selectedPut \<Rightarrow>
                  Inr ([legOf selectedPut SELL], s\<lparr>randomCalls := randomCalls s + 1\<rparr>))"

definition buildCrashHedge :: "OptionData list \<Rightarrow> error + Leg list" where
  "buildCrashHedge options =
     (let hedgeUniverse = filter (\<lambda>opt. od_optionType opt = PUT \<and> od_delta opt \<noteq> None) options
      in if hedgeUniverse = [] then Inr []
         else case nearestBy hedgeUniverse absDelta (8 / 100) of
                Inl e \<Rightarrow> Inl e
              | Inr hedgePut \<Rightarrow> Inr [legOf hedgePut BUY])"


section \<open>The backtesting engine: strategies, daily loop and metrics\<close>

text \<open>
  The filter of \<open>executeStrategy\<close>: between 21 and 45 days from the date to the expiry of
  the option, in days of 86400000 milliseconds.
\<close>

definition validDte :: "Host \<Rightarrow> string \<Rightarrow> OptionData \<Rightarrow> bool" where
  "validDte h date opt =
     (case (jsDate h (od_expiry opt), jsDate h date) of
        (Some expiry, Some current) \<Rightarrow>
          (let dte = real_of_int (expiry - current) / (1000 * 3600 * 24)
           in 21 \<le> dte \<and> dte \<le> 45)
      | _ \<Rightarrow> False)"

text \<open>The \<open>switch\<close> over the strategy name; a name it does not know gives no trades.\<close>

definition buildLegs ::
  "Host \<Rightarrow> BacktestEngine \<Rightarrow> string \<Rightarrow> OptionData list \<Rightarrow> string option
   \<Rightarrow> error + (Leg list \<times> BacktestEngine)" where
  "buildLegs h s strategy validOptions underlying =
     (if strategy = ''debit_call_vertical''
      then map_sum id (\<lambda>legs. (legs, s)) (buildDebitCallVertical validOptions)
      else if strategy = ''credit_put_spread''
      then map_sum id (\<lambda>legs. (legs, s)) (buildCreditPutSpread validOptions)
      else if strategy = ''atm_straddle''
      then map_sum id (\<lambda>legs. (legs, s)) (buildATMStraddle s validOptions underlying)
      else if strategy = ''cash_secured_put''
      then buildCashSecuredPut h s validOptions
      else if strategy = ''crash_hedge''
      then map_sum id (\<lambda>legs. (legs, s)) (buildCrashHedge validOptions)
      else Inr ([], s))"

definition executeStrategy ::
  "Host \<Rightarrow> string \<Rightarrow> string \<Rightarrow> BacktestEngine \<Rightarrow> error + BacktestEngine" where
  "executeStrategy h strategy date s =
     (let underlying = pickAt (bc_universe (bconfig s)) (mathRandom h (randomCalls s));
          s1 = s\<lparr>randomCalls := randomCalls s + 1\<rparr>;
          optionKey = tmpl underlying @ ''_'' @ date;
          availableOptions = (case map_of (optionData s1) optionKey of
                                None \<Rightarrow> [] | Some opts \<Rightarrow> opts)
      in if availableOptions = [] then Inr s1
         else
          (let validOptions = filter (validDte h date) availableOptions
           in if validOptions = [] then Inr s1
              else case buildLegs h s1 strategy validOptions underlying of
                     Inl e \<Rightarrow> Inl e
                   | Inr (legs, s2) \<Rightarrow>
                       Inr (fold (\<lambda>leg. executeTrade h (leg_symbol leg) (leg_side leg)
                                          (leg_quantity leg) (leg_price leg) strategy date)
                                 legs s2)))"

fun executeStrategies ::
  "Host \<Rightarrow> string list \<Rightarrow> string \<Rightarrow> BacktestEngine \<Rightarrow> error + BacktestEngine" where
  "executeStrategies h [] date s = Inr s"
| "executeStrategies h (strategy # rest) date s =
     (case executeStrategy h strategy date s of
        Inl e \<Rightarrow> Inl e
      | Inr s' \<Rightarrow> executeStrategies h rest date s')"

record DailyPnL =
  dp_date :: string
  dp_pnl :: jsnum
  dp_cumPnL :: jsnum

record PortfolioMetrics =
  totalReturn :: jsnum
  annualizedReturn :: jsnum
  volatility :: jsnum
  sharpeRatio :: jsnum
  maxDrawdown :: jsnum
  winRate :: jsnum
  profitFactor :: jsnum
  totalTrades :: nat

record BacktestResult =
  r_config :: BacktestConfig
  r_trades :: "BacktestTrade list"
  r_dailyPnL :: "DailyPnL list"
  r_metrics :: PortfolioMetrics
  r_strategyBreakdown :: "(string \<times> PortfolioMetrics) list"

text \<open>
  The \<open>returns\<close> of \<open>calculateMetrics\<close>: the day's P&L over the equity of the day before,
  which is the initial capital plus the cumulative P&L so far (\<open>prev\<close>, 0 on the first day).
\<close>

fun dailyReturns :: "real \<Rightarrow> jsnum \<Rightarrow> DailyPnL list \<Rightarrow> jsnum list" where
  "dailyReturns cap prev [] = []"
| "dailyReturns cap prev (d # ds) =
     (let prevEquity = jadd (Fin cap) prev
      in (if jgt prevEquity (Fin 0) then jdiv (dp_pnl d) prevEquity else Fin 0)
         # dailyReturns cap (dp_cumPnL d) ds)"

text \<open>One day of the drawdown loop, on the pair of the largest drawdown and the peak.\<close>

definition drawdownStep :: "real \<Rightarrow> jsnum \<times> jsnum \<Rightarrow> DailyPnL \<Rightarrow> jsnum \<times> jsnum" where
  "drawdownStep cap acc day =
     (let (maxDD, peak) = acc;
          currentValue = jadd (Fin cap) (dp_cumPnL day);
          peak' = (if jgt currentValue peak then currentValue else peak);
          drawdown = jdiv (jsub peak' currentValue) peak'
      in (if jgt drawdown maxDD then drawdown else maxDD, peak'))"

text \<open>
  The P&L that \<open>calculateMetrics\<close> gives one trade, and the position on the tape of
  \<open>Math.random()\<close> after it: the straddle case draws a second time when the first draw is
  not below 0.3.
\<close>

definition tradePnL :: "Host \<Rightarrow> nat \<Rightarrow> BacktestTrade \<Rightarrow> real \<times> nat" where
  "tradePnL h n trade =
     (let qty = t_quantity trade;
          premium = t_price trade
      in if t_strategy trade = ''debit_call_vertical''
         then (let pnl = (if t_side trade = BUY then - premium * qty * 100
                          else premium * qty * 100)
               in (pnl + (mathRandom h n - 4 / 10) * \<bar>pnl\<bar> * 2, n + 1))
         else if t_strategy trade = ''credit_put_spread''
         then (let pnl = (if t_side trade = SELL then premium * qty * 100
                          else - premium * qty * 100)
               in (pnl * (if mathRandom h n > 25 / 100 then 8 / 10 else - (25 / 10)), n + 1))
         else if t_strategy trade = ''atm_straddle''
         then (let pnl = (if t_side trade = BUY then - premium * qty * 100
                          else premium * qty * 100);
                   ivCrush = (mathRandom h n < 3 / 10)
               in if ivCrush then (pnl * (- (1 / 2)), n + 1)
                  else (pnl * ((mathRandom h (n + 1) - 2 / 10) * 3), n + 2))
         else ((mathRandom h n - 45 / 100) * premium * qty * 100, n + 1))"

fun tradePnLs :: "Host \<Rightarrow> nat \<Rightarrow> BacktestTrade list \<Rightarrow> real list \<times> nat" where
  "tradePnLs h n [] = ([], n)"
| "tradePnLs h n (t # ts) =
     (let (pnl, n') = tradePnL h n t;
          (rest, n'') = tradePnLs h n' ts
      in (pnl # rest, n''))"

text \<open>
  \<open>calculateMetrics\<close>.  On an empty series \<open>dailyPnL[dailyPnL.length - 1].cumPnL\<close> throws.
  The map \<open>tradesByStrategy\<close>, which the function fills and never reads, is left out.
\<close>

definition calculateMetrics ::
  "Host \<Rightarrow> BacktestEngine \<Rightarrow> DailyPnL list \<Rightarrow> error + (PortfolioMetrics \<times> BacktestEngine)" where
  "calculateMetrics h s dailyPnL =
     (if dailyPnL = [] then Inl TypeError
      else
       (let cap = bc_initialCapital (bconfig s);
            returns = dailyReturns cap (Fin 0) dailyPnL;
            finalValue = jadd (Fin cap) (dp_cumPnL (last dailyPnL));
            totalRet = jdiv (jsub finalValue (Fin cap)) (Fin cap);
            tradingDays = real (length dailyPnL);
            annualized = jsub (jpow (jadd (Fin 1) totalRet) (252 / tradingDays)) (Fin 1);
            meanReturn = jdiv (foldl jadd (Fin 0) returns) (Fin (real (length returns)));
            variance = jdiv (foldl (\<lambda>sum r. jadd sum (jpow (jsub r meanReturn) 2)) (Fin 0) returns)
                            (Fin (real (length returns)));
            vol = jsqrt (jmul variance (Fin 252));
            excessReturn = jsub annualized (Fin (bc_riskFreeRate (bconfig s)));
            sharpe = (if jgt vol (Fin 0) then jdiv excessReturn vol else Fin 0);
            maxDD = fst (foldl (drawdownStep cap) (Fin 0, Fin cap) dailyPnL);
            (pnls, n') = tradePnLs h (randomCalls s) (trades s);
            profitableTrades = filter (\<lambda>pnl. pnl > 0) pnls;
            wins = (if length (trades s) > 0
                    then Fin (real (length profitableTrades) / real (length (trades s)))
                    else Fin 0);
            totalProfit = foldl (+) 0 profitableTrades;
            totalLoss = \<bar>foldl (+) 0 (filter (\<lambda>pnl. pnl < 0) pnls)\<bar>;
            pf = (if totalLoss > 0 then Fin (totalProfit / totalLoss) else Fin 0)
        in Inr (\<lparr>totalReturn = totalRet, annualizedReturn = annualized, volatility = vol,
                  sharpeRatio = sharpe, maxDrawdown = maxDD, winRate = wins,
                  profitFactor = pf, totalTrades = length (trades s)\<rparr>,
                s\<lparr>randomCalls := n'\<rparr>)))"

text \<open>
  \<open>calculateStrategyBreakdown\<close>: seven draws of \<open>Math.random()\<close> a strategy, in the order
  of the fields of the object literal.
\<close>

definition breakdownEntry :: "Host \<Rightarrow> BacktestEngine \<Rightarrow> string \<Rightarrow> PortfolioMetrics" where
  "breakdownEntry h s strategy =
     (let n = randomCalls s
      in \<lparr>totalReturn = Fin (mathRandom h n * (2 / 10) - 1 / 10),
          annualizedReturn = Fin (mathRandom h (n + 1) * (3 / 10) - 15 / 100),
          volatility = Fin (1 / 10 + mathRandom h (n + 2) * (2 / 10)),
          sharpeRatio = Fin (mathRandom h (n + 3) * 2 - 1 / 2),
          maxDrawdown = Fin (mathRandom h (n + 4) * (15 / 100)),
          winRate = Fin (4 / 10 + mathRandom h (n + 5) * (4 / 10)),
          profitFactor = Fin (8 / 10 + mathRandom h (n + 6) * (12 / 10)),
          totalTrades = length (filter (\<lambda>t. t_strategy t = strategy) (trades s))\<rparr>)"

fun calculateStrategyBreakdown ::
  "Host \<Rightarrow> string list \<Rightarrow> (string \<times> PortfolioMetrics) list \<times> BacktestEngine
   \<Rightarrow> (string \<times> PortfolioMetrics) list \<times> BacktestEngine" where
  "calculateStrategyBreakdown h [] acc = acc"
| "calculateStrategyBreakdown h (strategy # rest) (breakdown, s) =
     calculateStrategyBreakdown h rest
       (AList.update strategy (breakdownEntry h s strategy) breakdown,
        s\<lparr>randomCalls := randomCalls s + 7\<rparr>)"

text \<open>
  The daily loop of \<open>runBacktest\<close>, on the engine, the series so far and the cumulative
  P&L: the value at the start of the day, the strategies, the value at the end of the day.
\<close>

fun runDays ::
  "Host \<Rightarrow> string list \<Rightarrow> BacktestEngine \<times> DailyPnL list \<times> jsnum
   \<Rightarrow> error + (BacktestEngine \<times> DailyPnL list \<times> jsnum)" where
  "runDays h [] acc = Inr acc"
| "runDays h (date # rest) (s, dailyPnL, cumPnL) =
     (let s0 = s\<lparr>currentDate := date\<rparr>;
          (dayStartValue, s1) = calculatePortfolioValue h s0
      in case executeStrategies h (bc_strategies (bconfig s1)) date s1 of
           Inl e \<Rightarrow> Inl e
         | Inr s2 \<Rightarrow>
             (let (dayEndValue, s3) = calculatePortfolioValue h s2;
                  dailyReturn = jsub dayEndValue dayStartValue;
                  cumPnL' = jadd cumPnL dailyReturn
              in runDays h rest
                   (s3, dailyPnL @ [\<lparr>dp_date = date, dp_pnl = dailyReturn, dp_cumPnL = cumPnL'\<rparr>],
                    cumPnL')))"

text \<open>
  \<open>runBacktest\<close> after \<open>loadData\<close>: the engine \<open>s\<close> holds the market and option data that
  the seeded generator produced.  The trading dates are the dates of the market data,
  without repetition and sorted as texts.
\<close>

definition tradingDates :: "BacktestEngine \<Rightarrow> string list" where
  "tradingDates s = sort (remdups (concat (map (\<lambda>(symbol, md). map md_date md) (marketData s))))"

definition runBacktest :: "Host \<Rightarrow> BacktestEngine \<Rightarrow> error + BacktestResult" where
  "runBacktest h s =
     (case runDays h (tradingDates s) (s, [], Fin 0) of
        Inl e \<Rightarrow> Inl e
      | Inr (s1, dailyPnL, cumPnL) \<Rightarrow>
          (case calculateMetrics h s1 dailyPnL of
             Inl e \<Rightarrow> Inl e
           | Inr (metrics, s2) \<Rightarrow>
               (let (breakdown, s3) =
                      calculateStrategyBreakdown h (bc_strategies (bconfig s2)) ([], s2)
                in Inr \<lparr>r_config = bconfig s3, r_trades = trades s3, r_dailyPnL = dailyPnL,
                        r_metrics = metrics, r_strategyBreakdown = breakdown\<rparr>)))"


section \<open>Sample inputs\<close>

text \<open>A backtest configuration for the evaluations at concrete inputs.\<close>

definition sampleConfig :: BacktestConfig where
  "sampleConfig =
     \<lparr>bc_startDate = ''2023-01-01'', bc_endDate = ''2023-01-02'', bc_initialCapital = 100,
      bc_universe = [''SPY''], bc_strategies = [''crash_hedge''], bc_dataSource = Mock,
      bc_riskFreeRate = 5 / 100, bc_commissionPerContract = 65 / 100\<rparr>"


text \<open>
  A host for the evaluations at concrete inputs: \<open>Math.random()\<close> always returns one half,
  the clock advances by a millisecond a trade, and \<open>new Date\<close> and \<open>Number\<close> are the
  tables of their values on the texts that occur.
\<close>

definition sampleDates :: "(string \<times> int) list" where
  "sampleDates =
     [(''2023-01-01'', 1672531200000), (''2023-01-02'', 1672617600000),
      (''2023-02-15'', 1676419200000), (''2023-03-01'', 1677628800000)]"

definition sampleNumbers :: "(string \<times> jsnum) list" where
  "sampleNumbers = [(''390'', Fin 390), (''400'', Fin 400), (''410'', Fin 410)]"

definition sampleHost :: Host where
  "sampleHost =
     \<lparr>mathRandom = (\<lambda>n. 1 / 2),
      dateNow = (\<lambda>n. 1672531200000 + int n),
      jsDate = map_of sampleDates,
      jsNumber = (\<lambda>t. case map_of sampleNumbers t of None \<Rightarrow> NaN | Some x \<Rightarrow> x)\<rparr>"


text \<open>
  Loaded data of one symbol on one day: the price of the day and a surface that holds a
  single put, 45 days from its expiry.  The engine starts with 10000 in cash.
\<close>

definition sampleMarket :: MarketData where
  "sampleMarket =
     \<lparr>md_date = ''2023-01-01'', md_symbol = ''SPY'', md_price = 402, md_volume = 1000000,
      md_impliedVol = Some (1 / 4)\<rparr>"

definition samplePut :: OptionData where
  "samplePut =
     \<lparr>od_date = ''2023-01-01'', od_symbol = ''SPY_2023-02-15_400_PUT'', od_underlying = ''SPY'',
      od_strike = 400, od_expiry = ''2023-02-15'', od_optionType = PUT, od_price = 5,
      od_delta = Some (- (8 / 100)), od_gamma = Some (1 / 100), od_theta = Some (- (1 / 10)),
      od_vega = Some (1 / 2), od_impliedVol = Some (1 / 4), od_openInterest = Some 500\<rparr>"

definition sampleEngine :: "string \<Rightarrow> BacktestEngine" where
  "sampleEngine strategy =
     \<lparr>bconfig = sampleConfig\<lparr>bc_initialCapital := 10000, bc_strategies := [strategy]\<rparr>,
      marketData = [(''SPY'', [sampleMarket])],
      optionData = [(''SPY_2023-01-01'', [samplePut])],
      trades = [], portfolio = [], cash = 10000, currentDate = [],
      randSeed = 123456789, randomCalls = 0\<rparr>"







text \<open>
  Inputs of the contribution allocation: the target weights 0.3, 0.075, 0.125, 0.48 and
  0.02 as doubles (the targets at a risky weight of one half under the default split), a
  snapshot of 9000 in which three sleeves are short of their targets by more than the
  deposit of 50 in total, and a snapshot of 9030 in which the five sleeves are short by
  less.
\<close>

definition halfRiskWeights :: SleeveWeights where
  "halfRiskWeights =
     \<lparr>w_debit = Fin (fl (3 / 10)), w_credit = Fin (fl (75 / 1000)),
      w_straddle = Fin (fl (125 / 1000)), w_collar = Fin (fl (48 / 100)),
      w_hedge = Fin (fl (2 / 100))\<rparr>"

definition shortEquities :: SleeveEquities where
  "shortEquities =
     \<lparr>e_debit = 2000, e_credit = 1500, e_straddle = 1000, e_collar = 4000, e_hedge = 500,
      e_total = 9000\<rparr>"

definition levelEquities :: SleeveEquities where
  "levelEquities =
     \<lparr>e_debit = 2700, e_credit = 680, e_straddle = 1130, e_collar = 4340, e_hedge = 180,
      e_total = 9030\<rparr>"







section \<open>Verified properties\<close>

subsection \<open>Arithmetic of finite JavaScript numbers\<close>

lemma jmax_Fin [simp]: "jmax (Fin a) (Fin b) = Fin (max a b)"
  by (simp add: max_def)

lemma jmin_Fin [simp]: "jmin (Fin a) (Fin b) = Fin (min a b)"
  by (simp add: min_def)

lemma jsub_Fin [simp]: "jsub (Fin a) (Fin b) = Fin (a - b)"
  by (simp add: jsub_def)

lemma jle_Fin [simp]: "jle (Fin a) (Fin b) = (a \<le> b)"
  by auto

lemma jgt_Fin [simp]: "jgt (Fin a) (Fin b) = (b < a)"
  by (simp add: jgt_def)


subsection \<open>CPPI: floor, cushion and risky weight\<close>

lemma getWeeksSinceStart_div:
  "getWeeksSinceStart eng d = (d - startDate eng) div msPerWeek"
  unfolding getWeeksSinceStart_def by (rule floor_divide_of_int_eq)

text \<open>
  At or below the floor the cushion is zero, and with a total equity other than zero the
  risky weight is zero as well.
\<close>

lemma computeCPPIMetrics_at_or_below_floor:
  assumes "e_total eq \<le> floorPct (config eng) * computeInvestedToDate eng d"
    and "e_total eq \<noteq> 0"
  shows "cushion (computeCPPIMetrics eng eq d) = 0
         \<and> riskyWeight (computeCPPIMetrics eng eq d) = Fin 0"
  using assms by (simp add: computeCPPIMetrics_def Let_def max_def)

text \<open>
  With a total equity of exactly zero and a floor that is not negative, the quotient
  \<open>cppiM * cushion / total\<close> is \<open>0 / 0\<close>: the risky weight is \<open>NaN\<close>.
\<close>

lemma computeCPPIMetrics_zero_equity:
  assumes "0 \<le> floorPct (config eng) * computeInvestedToDate eng d"
    and "e_total eq = 0"
  shows "cushion (computeCPPIMetrics eng eq d) = 0
         \<and> riskyWeight (computeCPPIMetrics eng eq d) = NaN"
  using assms by (simp add: computeCPPIMetrics_def Let_def max_def)

text \<open>
  Claim C1 (the code departs from it).  The claim: whenever the total equity is at most the
  floor, a total of exactly 0 included, \<open>computeCPPIMetrics\<close> returns cushion 0 and risky
  weight 0.  With the default configuration, on the start date and with all sleeves empty,
  the floor is 8500, the cushion is 0 and the risky weight the code returns is \<open>NaN\<close>:
  \<open>computeCPPIMetrics\<close> divides by the total without the guard that
  \<open>computeCurrentWeights\<close> has.
\<close>

theorem C1_riskyWeight_NaN_at_zero_equity:
  "cushion (computeCPPIMetrics
      \<lparr>config = createDefaultCPPIConfig, startDate = 0, lastRebalanceWeek = 0\<rparr>
      \<lparr>e_debit = 0, e_credit = 0, e_straddle = 0, e_collar = 0, e_hedge = 0, e_total = 0\<rparr> 0) = 0
   \<and> riskyWeight (computeCPPIMetrics
      \<lparr>config = createDefaultCPPIConfig, startDate = 0, lastRebalanceWeek = 0\<rparr>
      \<lparr>e_debit = 0, e_credit = 0, e_straddle = 0, e_collar = 0, e_hedge = 0, e_total = 0\<rparr> 0) = NaN"
  by (simp add: computeCPPIMetrics_def computeInvestedToDate_def getWeeksSinceStart_div
      createDefaultCPPIConfig_def Let_def max_def)


subsection \<open>CPPI: target weights\<close>

text \<open>The collar weight is never negative, whatever the finite risky weight.\<close>

lemma computeTargetWeights_collar_nonneg:
  "\<not> jlt (w_collar (computeTargetWeights cfg (Fin r))) (Fin 0)"
  by (simp add: computeTargetWeights_def Let_def)

text \<open>
  The five weights sum to the larger of 1 and the sum of the four that are not the
  residual: nothing normalises them when that sum is above 1.
\<close>

lemma computeTargetWeights_sum:
  "sleeveSum (computeTargetWeights cfg (Fin r)) =
     Fin (max 1 (r * rs_debit (riskySplit cfg) + r * rs_credit (riskySplit cfg)
                 + r * rs_straddle (riskySplit cfg) + rs_hedgeFixed (riskySplit cfg)))"
  by (simp add: computeTargetWeights_def Let_def sleeveSum_def max_def)

text \<open>
  Claim C2 (the code departs from it).  The claim: for every risky weight in [0,1] the five
  target weights sum to 1 within 1e-6 and the collar weight is not negative.  With the
  default configuration and a risky weight of 1 the weights are 0.60, 0.15, 0.25, collar 0
  and hedge 0.02: their sum is 1.02.  The risky weight is 1 as soon as the portfolio is a
  good 13% above the capital invested: on the start date, with 10000 invested and sleeves
  worth 12000, \<open>computeCPPIMetrics\<close> returns these weights.
\<close>

theorem C2_default_weights_sum_above_one:
  "sleeveSum (computeTargetWeights createDefaultCPPIConfig (Fin 1)) = Fin (102 / 100)
   \<and> w_collar (computeTargetWeights createDefaultCPPIConfig (Fin 1)) = Fin 0
   \<and> riskyWeight (computeCPPIMetrics
        \<lparr>config = createDefaultCPPIConfig, startDate = 0, lastRebalanceWeek = 0\<rparr>
        \<lparr>e_debit = 3000, e_credit = 2000, e_straddle = 1500, e_collar = 5000, e_hedge = 500,
         e_total = 12000\<rparr> 0) = Fin 1
   \<and> sleeveSum (targetWeights (computeCPPIMetrics
        \<lparr>config = createDefaultCPPIConfig, startDate = 0, lastRebalanceWeek = 0\<rparr>
        \<lparr>e_debit = 3000, e_credit = 2000, e_straddle = 1500, e_collar = 5000, e_hedge = 500,
         e_total = 12000\<rparr> 0)) = Fin (102 / 100)"
  by (simp add: computeCPPIMetrics_def computeInvestedToDate_def getWeeksSinceStart_div
      computeTargetWeights_def createDefaultCPPIConfig_def sleeveSum_def Let_def)


subsection \<open>CPPI: contribution allocation\<close>

text \<open>
  The rounding \<open>fl\<close> is within half a unit in the last place: the relative error of one
  operation is at most \<open>2^-53\<close>.
\<close>

lemma pow2_powr: "pow2 k = 2 powr real_of_int k"
proof (cases "0 \<le> k")
  case True
  then have "2 powr real_of_int k = 2 powr real (nat k)" by simp
  also have "\<dots> = 2 ^ nat k" by (simp add: powr_realpow)
  finally show ?thesis using True by (simp add: pow2_def)
next
  case False
  then have "2 powr real_of_int k = 2 powr (- real (nat (- k)))" by simp
  also have "\<dots> = 1 / 2 ^ nat (- k)" by (simp add: powr_minus powr_realpow divide_inverse)
  finally show ?thesis using False by (simp add: pow2_def)
qed

lemma pow2_pos: "0 < pow2 k"
  by (simp add: pow2_powr)

lemma expo_bounds:
  assumes "0 < a"
  shows "pow2 (expo a) \<le> a \<and> a < pow2 (expo a + 1)"
proof (cases "1 \<le> a")
  case True
  define n where "n = \<lfloor>a\<rfloor>"
  have n: "1 \<le> n" using True by (simp add: n_def)
  then have npos: "0 < n" by simp
  have b: "2 ^ nat (bitlen n - 1) \<le> n" "n < 2 ^ nat (bitlen n)"
    using bitlen_bounds [OF npos] by simp_all
  have bl: "1 \<le> bitlen n" using npos by (auto simp: bitlen_alt_def)
  have e: "expo a = bitlen n - 1" using True by (simp add: expo_def n_def)
  have "(2::real) ^ nat (bitlen n - 1) \<le> real_of_int n"
    using b(1) by (metis of_int_le_iff of_int_numeral of_int_power)
  moreover have "real_of_int n \<le> a" by (simp add: n_def)
  ultimately have "(2::real) ^ nat (bitlen n - 1) \<le> a" by linarith
  then have lo: "pow2 (expo a) \<le> a" using bl by (simp add: e pow2_def)
  have "n + 1 \<le> 2 ^ nat (bitlen n)" using b(2) by simp
  then have "real_of_int (n + 1) \<le> (2::real) ^ nat (bitlen n)"
    by (metis of_int_le_iff of_int_numeral of_int_power)
  moreover have "a < real_of_int (n + 1)" by (simp add: n_def)
  ultimately have "a < 2 ^ nat (bitlen n)" by linarith
  then have hi: "a < pow2 (expo a + 1)" using bl by (simp add: e pow2_def)
  from lo hi show ?thesis by simp
next
  case False
  define y where "y = 1 / a"
  define m where "m = \<lceil>y\<rceil>"
  define c where "c = bitlen (m - 1)"
  have y1: "1 < y" using False assms by (simp add: y_def)
  then have m2: "2 \<le> m" unfolding m_def by (simp add: le_ceiling_iff)
  then have mpos: "0 < m - 1" by simp
  have b: "2 ^ nat (c - 1) \<le> m - 1" "m - 1 < 2 ^ nat c"
    using bitlen_bounds [OF mpos] by (simp_all add: c_def)
  have c1: "1 \<le> c" using mpos by (auto simp: c_def bitlen_alt_def)
  have e: "expo a = - c" using False by (simp add: expo_def c_def m_def y_def)
  have "m \<le> 2 ^ nat c" using b(2) by simp
  then have "real_of_int m \<le> 2 ^ nat c" by (metis of_int_le_iff of_int_numeral of_int_power)
  moreover have "y \<le> real_of_int m" by (simp add: m_def)
  ultimately have "1 / a \<le> 2 ^ nat c" unfolding y_def by linarith
  then have "1 / 2 ^ nat c \<le> a" using assms by (simp add: field_simps)
  then have lo: "pow2 (expo a) \<le> a" using c1 by (simp add: e pow2_def)
  have "(2::real) ^ nat (c - 1) \<le> real_of_int (m - 1)"
    using b(1) by (metis of_int_le_iff of_int_numeral of_int_power)
  moreover have "real_of_int (m - 1) < y" unfolding m_def by linarith
  ultimately have "2 ^ nat (c - 1) < 1 / a" unfolding y_def by linarith
  then have lt: "a < 1 / 2 ^ nat (c - 1)" using assms by (simp add: field_simps)
  have hi: "a < pow2 (expo a + 1)"
  proof (cases "c = 1")
    case True
    then show ?thesis using lt by (simp add: e pow2_def)
  next
    case False
    then have "nat (c - 1) = nat (- (1 - c))" "\<not> 0 \<le> 1 - c" using c1 by simp_all
    then show ?thesis using lt by (simp add: e pow2_def)
  qed
  from lo hi show ?thesis by simp
qed

lemma roundEven_err: "\<bar>real_of_int (roundEven y) - y\<bar> \<le> 1 / 2"
proof -
  have "real_of_int \<lfloor>y\<rfloor> \<le> y" "y < real_of_int \<lfloor>y\<rfloor> + 1" by linarith+
  then show ?thesis by (auto simp: roundEven_def Let_def)
qed

lemma fl_err: "\<bar>fl x - x\<bar> \<le> \<bar>x\<bar> / 2 ^ 53"
proof (cases "x = 0")
  case True
  then show ?thesis by (simp add: fl_def)
next
  case False
  define e where "e = expo \<bar>x\<bar>"
  define q where "q = pow2 (e - 52)"
  have qpos: "0 < q" by (simp add: q_def pow2_pos)
  have lo: "pow2 e \<le> \<bar>x\<bar>" using expo_bounds [of "\<bar>x\<bar>"] False by (simp add: e_def)
  have q2: "q = pow2 e / 2 ^ 52"
    by (simp add: q_def pow2_powr powr_diff)
  have flx: "fl x = real_of_int (roundEven (x / q)) * q"
    using False by (simp add: fl_def Let_def q_def e_def)
  have "fl x - x = (real_of_int (roundEven (x / q)) - x / q) * q"
    using qpos by (simp add: flx algebra_simps)
  then have "\<bar>fl x - x\<bar> = \<bar>real_of_int (roundEven (x / q)) - x / q\<bar> * q"
    using qpos by (simp add: abs_mult)
  also have "\<dots> \<le> (1 / 2) * q"
    using roundEven_err [of "x / q"] qpos by (intro mult_right_mono) simp_all
  also have "\<dots> = pow2 e / 2 ^ 53" by (simp add: q2)
  also have "\<dots> \<le> \<bar>x\<bar> / 2 ^ 53" using lo by (simp add: divide_right_mono)
  finally show ?thesis .
qed


text \<open>
  The relation \<open>near\<close> through the operations: a rounding costs one factor, a sum of
  non-negative numbers none, a product and a quotient add the factors of their arguments.
\<close>

lemma rho_bounds: "0 < rho" "rho < 1" "rho \<le> 1"
  by (simp_all add: rho_def)

lemma rho_pow: "0 < rho ^ k" "rho ^ k \<le> 1"
  using rho_bounds by (simp_all add: power_le_one)

lemma rho_pow_mono: "j \<le> k \<Longrightarrow> rho ^ k \<le> rho ^ j"
  using rho_bounds by (simp add: power_decreasing)

lemma fl_zero [simp]: "fl 0 = 0"
  by (simp add: fl_def)

lemma fl_interval:
  assumes "0 \<le> x"
  shows "x - x / 2 ^ 53 \<le> fl x" "fl x \<le> x + x / 2 ^ 53"
proof -
  have "\<bar>fl x - x\<bar> \<le> x / 2 ^ 53" using fl_err [of x] assms by simp
  then show "x - x / 2 ^ 53 \<le> fl x" "fl x \<le> x + x / 2 ^ 53" by linarith+
qed

lemma fl_nonneg: "0 \<le> x \<Longrightarrow> 0 \<le> fl x"
proof -
  assume x: "0 \<le> x"
  have "x / 2 ^ 53 \<le> x" using x by (simp add: field_simps)
  then show ?thesis using fl_interval(1) [OF x] by linarith
qed

lemma fl_pos: "0 < x \<Longrightarrow> 0 < fl x"
proof -
  assume x: "0 < x"
  have "x / 2 ^ 53 < x" using x by (simp add: field_simps)
  then show ?thesis using fl_interval(1) [of x] x by linarith
qed

lemma fl_bounds:
  assumes "0 \<le> x"
  shows "x * rho \<le> fl x" "fl x * rho \<le> x"
proof -
  have "x * rho = x - x / 2 ^ 53" by (simp add: rho_def algebra_simps)
  then show "x * rho \<le> fl x" using fl_interval(1) [OF assms] by (simp only:)
  have "fl x \<le> x * (1 + 1 / 2 ^ 53)" using fl_interval(2) [OF assms] by (simp add: algebra_simps)
  then have "fl x * rho \<le> x * (1 + 1 / 2 ^ 53) * rho"
    using rho_bounds by (simp add: mult_right_mono)
  also have "\<dots> = x * (1 - (1 / 2 ^ 53) ^ 2)" by (simp add: rho_def algebra_simps power2_eq_square)
  also have "\<dots> \<le> x * 1" using assms by (intro mult_left_mono) simp_all
  finally show "fl x * rho \<le> x" by simp
qed

lemma near_refl: "0 \<le> x \<Longrightarrow> near k x x"
  using rho_pow [of k] by (simp add: near_def mult_left_le)

lemma near_sym: "near k x y \<Longrightarrow> near k y x"
  by (simp add: near_def)

lemma near_mono: "near j x y \<Longrightarrow> j \<le> k \<Longrightarrow> near k x y"
proof -
  assume n: "near j x y" and jk: "j \<le> k"
  have r: "rho ^ k \<le> rho ^ j" using jk by (rule rho_pow_mono)
  have "y * rho ^ k \<le> y * rho ^ j" "x * rho ^ k \<le> x * rho ^ j"
    using n r by (simp_all add: near_def mult_left_mono)
  then show ?thesis using n by (auto simp: near_def)
qed

lemma near_fl: "near k x y \<Longrightarrow> near (Suc k) (fl x) y"
proof -
  assume n: "near k x y"
  then have x: "0 \<le> x" and y: "0 \<le> y" and lo: "y * rho ^ k \<le> x" and hi: "x * rho ^ k \<le> y"
    by (simp_all add: near_def)
  have "y * rho ^ Suc k = (y * rho ^ k) * rho" by simp
  also have "\<dots> \<le> x * rho" using lo rho_bounds by (simp add: mult_right_mono)
  also have "\<dots> \<le> fl x" using fl_bounds(1) [OF x] .
  finally have a: "y * rho ^ Suc k \<le> fl x" .
  have "fl x * rho ^ Suc k = (fl x * rho) * rho ^ k" by simp
  also have "\<dots> \<le> x * rho ^ k" using fl_bounds(2) [OF x] rho_pow(1) [of k] by (simp add: mult_right_mono)
  also have "\<dots> \<le> y" by (rule hi)
  finally have b: "fl x * rho ^ Suc k \<le> y" .
  show ?thesis using a b y fl_nonneg [OF x] by (simp add: near_def)
qed

lemma near_add: "near k a a' \<Longrightarrow> near k b b' \<Longrightarrow> near k (a + b) (a' + b')"
  by (auto simp: near_def algebra_simps intro: add_mono)

lemma near_mult: "near j a a' \<Longrightarrow> near k b b' \<Longrightarrow> near (j + k) (a * b) (a' * b')"
proof -
  assume A: "near j a a'" and B: "near k b b'"
  have rj: "0 \<le> rho ^ j" and rk: "0 \<le> rho ^ k" using rho_pow(1) by (simp_all add: less_imp_le)
  have "(a' * rho ^ j) * (b' * rho ^ k) \<le> a * b"
    using A B rj rk by (intro mult_mono) (simp_all add: near_def)
  moreover have "(a * rho ^ j) * (b * rho ^ k) \<le> a' * b'"
    using A B rj rk by (intro mult_mono) (simp_all add: near_def)
  ultimately show ?thesis using A B by (simp add: near_def power_add algebra_simps)
qed

lemma near_div:
  assumes A: "near j a a'" and B: "near k b b'" and b: "0 < b" "0 < b'"
  shows "near (j + k) (a / b) (a' / b')"
proof -
  have rk: "0 < rho ^ k" and rj: "0 < rho ^ j" using rho_pow(1) by simp_all
  have "near k (1 / b) (1 / b')"
    using B b rk by (simp add: near_def field_simps)
  then have "near (j + k) (a * (1 / b)) (a' * (1 / b'))" by (rule near_mult [OF A])
  then show ?thesis by simp
qed

lemma near_trans: "near j x y \<Longrightarrow> near k y z \<Longrightarrow> near (j + k) x z"
proof -
  assume A: "near j x y" and B: "near k y z"
  have rk: "0 \<le> rho ^ k" and rj: "0 \<le> rho ^ j" using rho_pow(1) by (simp_all add: less_imp_le)
  have "z * rho ^ k * rho ^ j \<le> y * rho ^ j" using B rj by (simp add: near_def mult_right_mono)
  also have "\<dots> \<le> x" using A by (simp add: near_def)
  finally have a: "z * rho ^ (j + k) \<le> x" by (simp add: power_add algebra_simps)
  have "x * rho ^ j * rho ^ k \<le> y * rho ^ k" using A rk by (simp add: near_def mult_right_mono)
  also have "\<dots> \<le> z" using B by (simp add: near_def)
  finally have b: "x * rho ^ (j + k) \<le> z" by (simp add: power_add algebra_simps)
  show ?thesis using a b A B by (simp add: near_def)
qed

text \<open>The sum of five non-negative numbers, rounded after each addition.\<close>

lemma near_sum5:
  assumes "0 \<le> s1" "0 \<le> s2" "0 \<le> s3" "0 \<le> s4" "0 \<le> s5"
  shows "near 4 (fl (fl (fl (fl (s1 + s2) + s3) + s4) + s5)) (s1 + s2 + s3 + s4 + s5)"
proof -
  have "near 0 (s1 + s2) (s1 + s2)" using assms by (simp add: near_refl)
  then have "near (Suc 0) (fl (s1 + s2)) (s1 + s2)" by (rule near_fl)
  then have "near (Suc 0) (fl (s1 + s2) + s3) (s1 + s2 + s3)"
    using near_refl [OF assms(3)] by (rule near_add)
  then have "near (Suc (Suc 0)) (fl (fl (s1 + s2) + s3)) (s1 + s2 + s3)" by (rule near_fl)
  then have "near (Suc (Suc 0)) (fl (fl (s1 + s2) + s3) + s4) (s1 + s2 + s3 + s4)"
    using near_refl [OF assms(4)] by (rule near_add)
  then have "near (Suc (Suc (Suc 0))) (fl (fl (fl (s1 + s2) + s3) + s4)) (s1 + s2 + s3 + s4)"
    by (rule near_fl)
  then have "near (Suc (Suc (Suc 0))) (fl (fl (fl (s1 + s2) + s3) + s4) + s5)
               (s1 + s2 + s3 + s4 + s5)"
    using near_refl [OF assms(5)] by (rule near_add)
  then have "near (Suc (Suc (Suc (Suc 0)))) (fl (fl (fl (fl (s1 + s2) + s3) + s4) + s5))
               (s1 + s2 + s3 + s4 + s5)"
    by (rule near_fl)
  then show ?thesis by (simp add: eval_nat_numeral)
qed


lemma dadd_Fin [simp]: "dadd (Fin a) (Fin b) = Fin (fl (a + b))"
  by (simp add: dadd_def)

lemma dsub_Fin [simp]: "dsub (Fin a) (Fin b) = Fin (fl (a - b))"
  by (simp add: dsub_def jsub_def)

lemma dmul_Fin [simp]: "dmul (Fin a) (Fin b) = Fin (fl (a * b))"
  by (simp add: dmul_def)

lemma ddiv_Fin: "b \<noteq> 0 \<Longrightarrow> ddiv (Fin a) (Fin b) = Fin (fl (a / b))"
  by (simp add: ddiv_def)

lemma sleeveTotal_Fin:
  "sleeveTotal \<lparr>w_debit = Fin s1, w_credit = Fin s2, w_straddle = Fin s3, w_collar = Fin s4,
                 w_hedge = Fin s5\<rparr> = Fin (fl (fl (fl (fl (s1 + s2) + s3) + s4) + s5))"
  by (simp add: sleeveTotal_def)

lemma sleeveSum_Fin:
  "sleeveSum \<lparr>w_debit = Fin s1, w_credit = Fin s2, w_straddle = Fin s3, w_collar = Fin s4,
               w_hedge = Fin s5\<rparr> = Fin (s1 + s2 + s3 + s4 + s5)"
  by (simp add: sleeveSum_def)

lemma shortfalls_Fin:
  "\<exists>s1 s2 s3 s4 s5. 0 \<le> s1 \<and> 0 \<le> s2 \<and> 0 \<le> s3 \<and> 0 \<le> s4 \<and> 0 \<le> s5 \<and>
     shortfalls \<lparr>w_debit = Fin a, w_credit = Fin b, w_straddle = Fin c, w_collar = Fin d,
                 w_hedge = Fin e\<rparr> eq deposit =
     \<lparr>w_debit = Fin s1, w_credit = Fin s2, w_straddle = Fin s3, w_collar = Fin s4,
      w_hedge = Fin s5\<rparr>"
  unfolding shortfalls_def targetDollars_def Let_def
  by (simp only: SleeveWeights.simps dadd_Fin dmul_Fin dsub_Fin jmax_Fin) 
     (metis max.cobounded1)

lemma near_five:
  assumes "near k a1 t1" "near k a2 t2" "near k a3 t3" "near k a4 t4" "near k a5 t5"
  shows "near k (a1 + a2 + a3 + a4 + a5) (t1 + t2 + t3 + t4 + t5)"
  by (intro near_add assms)

lemma rho_numeric: "1 - 1 / 2 ^ 49 \<le> rho ^ 12" "1 \<le> (1 + 1 / 2 ^ 49) * rho ^ 12"
  by (simp_all add: rho_def power_divide)

lemma near_within:
  assumes "near k x d" "k \<le> 12"
  shows "withinRel (Fin x) d (1 / 2 ^ 49)"
proof -
  have n: "near 12 x d" using assms by (rule near_mono)
  then have x: "0 \<le> x" and d: "0 \<le> d" and lo: "d * rho ^ 12 \<le> x" and hi: "x * rho ^ 12 \<le> d"
    by (simp_all add: near_def)
  have "d * (1 - 1 / 2 ^ 49) \<le> d * rho ^ 12" using d rho_numeric(1) by (rule mult_left_mono [rotated])
  then have a: "d - (1 / 2 ^ 49) * d \<le> x" using lo by (simp add: algebra_simps)
  have "x * 1 \<le> x * ((1 + 1 / 2 ^ 49) * rho ^ 12)" using x rho_numeric(2) by (rule mult_left_mono [rotated])
  also have "\<dots> = (1 + 1 / 2 ^ 49) * (x * rho ^ 12)" by (simp add: algebra_simps)
  also have "\<dots> \<le> (1 + 1 / 2 ^ 49) * d" using hi by (intro mult_left_mono) simp_all
  finally have b: "x \<le> d + (1 / 2 ^ 49) * d" by (simp add: algebra_simps)
  from a b have "\<bar>x - d\<bar> \<le> (1 / 2 ^ 49) * d" by linarith
  then show ?thesis by simp
qed


text \<open>
  Claim C3 (as written, refuted).  The claim: the five allocations sum exactly to the
  deposit.  For the target weights 0.3, 0.075, 0.125, 0.48 and 0.02, sleeve equities of
  2000, 1500, 1000, 4000 and 500 and a deposit of 50, the total shortfall of 1190.25
  exceeds the deposit, every shortfall is scaled by the rounded quotient of the deposit
  and the total, and the three shares that are not zero sum to \<open>50 - 5 / 2^50\<close>; added
  from left to right in doubles they give \<open>50 - 2^-47\<close>, which prints as
  49.99999999999999.
\<close>

theorem C3_rounded_shares_counterexample:
  "computeContributionsAllocation halfRiskWeights shortEquities 50
     = \<lparr>w_debit = Fin (4227149933797921 / 2 ^ 47), w_credit = Fin 0,
        w_straddle = Fin (6207702699982961 / 2 ^ 50),
        w_collar = Fin (8135046585882433 / 2 ^ 49), w_hedge = Fin 0\<rparr>
   \<and> sleeveSum (computeContributionsAllocation halfRiskWeights shortEquities 50)
       = Fin (50 - 5 / 2 ^ 50)
   \<and> sleeveTotal (computeContributionsAllocation halfRiskWeights shortEquities 50)
       = Fin (50 - 1 / 2 ^ 47)
   \<and> sleeveSum (computeContributionsAllocation halfRiskWeights shortEquities 50) \<noteq> Fin 50
   \<and> sleeveTotal (computeContributionsAllocation halfRiskWeights shortEquities 50) \<noteq> Fin 50"
  by code_simp

text \<open>
  Claim C3 (amended).  For all target weights that are finite and not negative and have a
  positive sum (the target-weight vectors, which sum to 1), every snapshot of the sleeve
  equities and every deposit that is not negative, the five allocations are finite and
  their sum is the deposit up to rounding: the exact sum of the five doubles, and their
  sum in doubles from left to right, are within the deposit times \<open>2^-49\<close> of the
  deposit, in the branch that funds the shortfalls and shares out the remainder as in the
  branch that scales the shortfalls.
\<close>

theorem C3_allocation_sums_to_deposit_up_to_rounding:
  fixes a b c d e deposit :: real and eq :: SleeveEquities
  assumes dep: "0 \<le> deposit"
    and w: "0 \<le> a" "0 \<le> b" "0 \<le> c" "0 \<le> d" "0 \<le> e"
    and T: "0 < a + b + c + d + e"
  shows "withinRel (sleeveSum (computeContributionsAllocation
            \<lparr>w_debit = Fin a, w_credit = Fin b, w_straddle = Fin c, w_collar = Fin d,
             w_hedge = Fin e\<rparr> eq deposit)) deposit (1 / 2 ^ 49)
       \<and> withinRel (sleeveTotal (computeContributionsAllocation
            \<lparr>w_debit = Fin a, w_credit = Fin b, w_straddle = Fin c, w_collar = Fin d,
             w_hedge = Fin e\<rparr> eq deposit)) deposit (1 / 2 ^ 49)"
proof -
  let ?w = "\<lparr>w_debit = Fin a, w_credit = Fin b, w_straddle = Fin c, w_collar = Fin d,
             w_hedge = Fin e\<rparr>"
  obtain s1 s2 s3 s4 s5 where
    nn: "0 \<le> s1" "0 \<le> s2" "0 \<le> s3" "0 \<le> s4" "0 \<le> s5"
    and sh: "shortfalls ?w eq deposit =
      \<lparr>w_debit = Fin s1, w_credit = Fin s2, w_straddle = Fin s3, w_collar = Fin s4,
       w_hedge = Fin s5\<rparr>"
    using shortfalls_Fin [of a b c d e eq deposit] by blast
  define S where "S = s1 + s2 + s3 + s4 + s5"
  define S' where "S' = fl (fl (fl (fl (s1 + s2) + s3) + s4) + s5)"
  have nS: "near 4 S' S" unfolding S_def S'_def using nn by (rule near_sum5)
  have tot: "sleeveTotal (shortfalls ?w eq deposit) = Fin S'"
    unfolding sh S'_def by (rule sleeveTotal_Fin)
  have fin: "near k x deposit \<Longrightarrow> k \<le> 8 \<Longrightarrow>
      near 4 (fl (fl (fl (fl (a1 + a2) + a3) + a4) + a5)) x \<Longrightarrow>
      withinRel (Fin x) deposit (1 / 2 ^ 49)
      \<and> withinRel (Fin (fl (fl (fl (fl (a1 + a2) + a3) + a4) + a5))) deposit (1 / 2 ^ 49)"
    for k x a1 a2 a3 a4 a5
  proof -
    assume n: "near k x deposit" and k: "k \<le> 8"
      and f: "near 4 (fl (fl (fl (fl (a1 + a2) + a3) + a4) + a5)) x"
    have "near (4 + k) (fl (fl (fl (fl (a1 + a2) + a3) + a4) + a5)) deposit"
      using f n by (rule near_trans)
    then have y: "withinRel (Fin (fl (fl (fl (fl (a1 + a2) + a3) + a4) + a5))) deposit (1 / 2 ^ 49)"
      by (rule near_within) (use k in simp)
    have x: "withinRel (Fin x) deposit (1 / 2 ^ 49)"
      using n by (rule near_within) (use k in simp)
    from x y show ?thesis by (rule conjI)
  qed
  show ?thesis
  proof (cases "S' \<le> deposit")
    case False
    then have Spos: "0 < S'" using dep by linarith
    define sc where "sc = fl (deposit / S')"
    have res: "computeContributionsAllocation ?w eq deposit =
        \<lparr>w_debit = Fin (fl (s1 * sc)), w_credit = Fin (fl (s2 * sc)),
         w_straddle = Fin (fl (s3 * sc)), w_collar = Fin (fl (s4 * sc)),
         w_hedge = Fin (fl (s5 * sc))\<rparr>"
      unfolding computeContributionsAllocation_def Let_def tot
      using False Spos by (simp add: sh ddiv_Fin sc_def)
    have "near 0 (deposit / S') (deposit / S')" using dep Spos by (simp add: near_refl)
    then have nsc: "near (Suc 0) sc (deposit / S')" unfolding sc_def by (rule near_fl)
    have one: "near 2 (fl (s * sc)) (s * (deposit / S'))" if "0 \<le> s" for s
    proof -
      have "near (0 + Suc 0) (s * sc) (s * (deposit / S'))"
        using near_refl [OF that, of 0] nsc by (rule near_mult)
      then have "near (Suc (Suc 0)) (fl (s * sc)) (s * (deposit / S'))"
        using near_fl by simp
      then show ?thesis by (simp add: eval_nat_numeral)
    qed
    have "near 2 (fl (s1 * sc) + fl (s2 * sc) + fl (s3 * sc) + fl (s4 * sc) + fl (s5 * sc))
            (s1 * (deposit / S') + s2 * (deposit / S') + s3 * (deposit / S')
             + s4 * (deposit / S') + s5 * (deposit / S'))"
      using nn by (intro near_five one)
    also have "s1 * (deposit / S') + s2 * (deposit / S') + s3 * (deposit / S')
             + s4 * (deposit / S') + s5 * (deposit / S') = S * (deposit / S')"
      unfolding S_def by (simp only: distrib_right)
    finally have n2: "near 2 (fl (s1 * sc) + fl (s2 * sc) + fl (s3 * sc) + fl (s4 * sc)
                               + fl (s5 * sc)) (S * (deposit / S'))" .
    have "near (4 + 0) (S * (deposit / S')) (S' * (deposit / S'))"
      using near_sym [OF nS] near_refl [of "deposit / S'" 0] dep Spos
      by (intro near_mult) simp_all
    then have "near 4 (S * (deposit / S')) deposit" using Spos by simp
    then have n6: "near (2 + 4) (fl (s1 * sc) + fl (s2 * sc) + fl (s3 * sc) + fl (s4 * sc)
                               + fl (s5 * sc)) deposit"
      using n2 near_trans by blast
    have fs: "near 4 (fl (fl (fl (fl (fl (s1 * sc) + fl (s2 * sc)) + fl (s3 * sc)) + fl (s4 * sc))
                        + fl (s5 * sc)))
                (fl (s1 * sc) + fl (s2 * sc) + fl (s3 * sc) + fl (s4 * sc) + fl (s5 * sc))"
      using nn nsc by (intro near_sum5 fl_nonneg mult_nonneg_nonneg) (simp_all add: near_def)
    show ?thesis unfolding res sleeveSum_Fin sleeveTotal_Fin
      using fin [OF n6 _ fs] by simp
  next
    case True
    define D where "D = deposit - S'"
    have D0: "0 \<le> D" using True by (simp add: D_def)
    show ?thesis
    proof (cases "0 < D")
      case False
      then have eqS: "S' = deposit" using D0 by (simp add: D_def)
      have res: "computeContributionsAllocation ?w eq deposit = shortfalls ?w eq deposit"
        unfolding computeContributionsAllocation_def Let_def tot using eqS by simp
      have "near 4 S deposit" using near_sym [OF nS] eqS by simp
      then have a1: "withinRel (Fin S) deposit (1 / 2 ^ 49)" by (rule near_within) simp
      have "near 0 S' deposit" using eqS dep by (simp add: near_refl)
      then have a2: "withinRel (Fin S') deposit (1 / 2 ^ 49)" by (rule near_within) simp
      show ?thesis unfolding res sh sleeveSum_Fin sleeveTotal_Fin
        using a1 a2 by (simp add: S_def S'_def)
    next
      case Dpos: True
      define rem where "rem = fl D"
      define T' where "T' = fl (fl (fl (fl (a + b) + c) + d) + e)"
      have rempos: "0 < rem" unfolding rem_def using Dpos by (rule fl_pos)
      have nT: "near 4 T' (a + b + c + d + e)" unfolding T'_def using w by (rule near_sum5)
      have "(a + b + c + d + e) * rho ^ 4 \<le> T'" using nT by (simp add: near_def)
      moreover have "0 < (a + b + c + d + e) * rho ^ 4" using T rho_pow(1) [of 4] by simp
      ultimately have T'pos: "0 < T'" by linarith
      have totw: "sleeveTotal ?w = Fin T'" unfolding T'_def by (rule sleeveTotal_Fin)
      have res: "computeContributionsAllocation ?w eq deposit =
        \<lparr>w_debit = Fin (fl (s1 + fl (rem * fl (a / T')))),
         w_credit = Fin (fl (s2 + fl (rem * fl (b / T')))),
         w_straddle = Fin (fl (s3 + fl (rem * fl (c / T')))),
         w_collar = Fin (fl (s4 + fl (rem * fl (d / T')))),
         w_hedge = Fin (fl (s5 + fl (rem * fl (e / T'))))\<rparr>"
        unfolding computeContributionsAllocation_def Let_def tot totw
        using True rempos T'pos by (simp add: sh ddiv_Fin rem_def D_def)
      have "near 0 D D" using D0 by (simp add: near_refl)
      then have nrem: "near (Suc 0) rem D" unfolding rem_def by (rule near_fl)
      have one: "near 4 (fl (s + fl (rem * fl (x / T')))) (s + D * (x / T'))"
        if "0 \<le> s" "0 \<le> x" for s x
      proof -
        have "near 0 (x / T') (x / T')" using that T'pos by (simp add: near_refl)
        then have "near (Suc 0) (fl (x / T')) (x / T')" by (rule near_fl)
        then have "near (Suc 0 + Suc 0) (rem * fl (x / T')) (D * (x / T'))"
          using nrem near_mult by blast
        then have "near (Suc (Suc 0)) (rem * fl (x / T')) (D * (x / T'))" by simp
        then have "near (Suc (Suc (Suc 0))) (fl (rem * fl (x / T'))) (D * (x / T'))"
          by (rule near_fl)
        then have "near (Suc (Suc (Suc 0))) (s + fl (rem * fl (x / T'))) (s + D * (x / T'))"
          using near_refl [OF that(1)] near_add by blast
        then have "near (Suc (Suc (Suc (Suc 0)))) (fl (s + fl (rem * fl (x / T'))))
                     (s + D * (x / T'))"
          by (rule near_fl)
        then show ?thesis by (simp add: eval_nat_numeral)
      qed
      let ?a1 = "fl (s1 + fl (rem * fl (a / T')))"
      let ?a2 = "fl (s2 + fl (rem * fl (b / T')))"
      let ?a3 = "fl (s3 + fl (rem * fl (c / T')))"
      let ?a4 = "fl (s4 + fl (rem * fl (d / T')))"
      let ?a5 = "fl (s5 + fl (rem * fl (e / T')))"
      have "near 4 (?a1 + ?a2 + ?a3 + ?a4 + ?a5)
              ((s1 + D * (a / T')) + (s2 + D * (b / T')) + (s3 + D * (c / T'))
               + (s4 + D * (d / T')) + (s5 + D * (e / T')))"
        using nn w by (intro near_five one)
      also have "(s1 + D * (a / T')) + (s2 + D * (b / T')) + (s3 + D * (c / T'))
               + (s4 + D * (d / T')) + (s5 + D * (e / T'))
               = S + D * ((a + b + c + d + e) / T')"
        unfolding S_def by (simp add: algebra_simps add_divide_distrib)
      finally have n4: "near 4 (?a1 + ?a2 + ?a3 + ?a4 + ?a5) (S + D * ((a + b + c + d + e) / T'))" .
      have "near (4 + 0) ((a + b + c + d + e) / T') (T' / T')"
        using near_sym [OF nT] near_refl [of T' 0] T T'pos by (intro near_div) simp_all
      then have "near 4 ((a + b + c + d + e) / T') 1" using T'pos by simp
      then have "near (0 + 4) (D * ((a + b + c + d + e) / T')) (D * 1)"
        using near_refl [OF D0, of 0] by (intro near_mult)
      then have "near 4 (S + D * ((a + b + c + d + e) / T')) (S' + D)"
        using near_sym [OF nS] by (intro near_add) simp_all
      then have "near 4 (S + D * ((a + b + c + d + e) / T')) deposit" by (simp add: D_def)
      then have n8: "near (4 + 4) (?a1 + ?a2 + ?a3 + ?a4 + ?a5) deposit"
        using n4 near_trans by blast
      have nnp: "0 \<le> s + fl (rem * fl (x / T'))" if "0 \<le> s" "0 \<le> x" for s x
        using that rempos T'pos by (intro add_nonneg_nonneg fl_nonneg mult_nonneg_nonneg) simp_all
      have fs: "near 4 (fl (fl (fl (fl (?a1 + ?a2) + ?a3) + ?a4) + ?a5))
                  (?a1 + ?a2 + ?a3 + ?a4 + ?a5)"
        using nn w by (intro near_sum5 fl_nonneg nnp)
      show ?thesis unfolding res sleeveSum_Fin sleeveTotal_Fin
        using fin [OF n8 _ fs] by simp
    qed
  qed
qed

text \<open>
  Claim C3 (amended): a witness in each branch.  The weights and the deposit of the
  counterexample with the snapshot of 9000, where the total shortfall exceeds the deposit
  and three shortfalls are scaled, and with the snapshot of 9030, where the five
  shortfalls are funded and the remainder is shared out.
\<close>

theorem C3_allocation_sums_to_deposit_up_to_rounding_witness:
  "(0 :: real) \<le> 50
   \<and> 0 \<le> fl (3 / 10) \<and> 0 \<le> fl (75 / 1000) \<and> 0 \<le> fl (125 / 1000) \<and> 0 \<le> fl (48 / 100)
   \<and> 0 \<le> fl (2 / 100)
   \<and> 0 < fl (3 / 10) + fl (75 / 1000) + fl (125 / 1000) + fl (48 / 100) + fl (2 / 100)
   \<and> \<not> jle (sleeveTotal (shortfalls halfRiskWeights shortEquities 50)) (Fin 50)
   \<and> withinRel (sleeveSum (computeContributionsAllocation halfRiskWeights shortEquities 50))
        50 (1 / 2 ^ 49)
   \<and> withinRel (sleeveTotal (computeContributionsAllocation halfRiskWeights shortEquities 50))
        50 (1 / 2 ^ 49)
   \<and> jle (sleeveTotal (shortfalls halfRiskWeights levelEquities 50)) (Fin 50)
   \<and> jgt (dsub (Fin 50) (sleeveTotal (shortfalls halfRiskWeights levelEquities 50))) (Fin 0)
   \<and> withinRel (sleeveSum (computeContributionsAllocation halfRiskWeights levelEquities 50))
        50 (1 / 2 ^ 49)
   \<and> withinRel (sleeveTotal (computeContributionsAllocation halfRiskWeights levelEquities 50))
        50 (1 / 2 ^ 49)"
proof -
  have h: "(0 :: real) \<le> 50" "0 \<le> fl (3 / 10)" "0 \<le> fl (75 / 1000)" "0 \<le> fl (125 / 1000)"
      "0 \<le> fl (48 / 100)" "0 \<le> fl (2 / 100)"
      "0 < fl (3 / 10) + fl (75 / 1000) + fl (125 / 1000) + fl (48 / 100) + fl (2 / 100)"
    by code_simp+
  have scaled: "\<not> jle (sleeveTotal (shortfalls halfRiskWeights shortEquities 50)) (Fin 50)"
    by code_simp
  have funded: "jle (sleeveTotal (shortfalls halfRiskWeights levelEquities 50)) (Fin 50)"
      "jgt (dsub (Fin 50) (sleeveTotal (shortfalls halfRiskWeights levelEquities 50))) (Fin 0)"
    by code_simp+
  show ?thesis
    using C3_allocation_sums_to_deposit_up_to_rounding [OF h, of shortEquities]
      C3_allocation_sums_to_deposit_up_to_rounding [OF h, of levelEquities]
      h scaled funded
    unfolding halfRiskWeights_def [symmetric] by simp
qed

subsection \<open>CPPI: capital invested to date\<close>

text \<open>
  Claim C9, as stated, fails.  The claim: the base of the invested capital is the initial
  capital configured for the run, not a built-in constant.  The engine has no such
  setting; for a run that starts with 25000, on the start date, it still returns 10000.
\<close>

theorem C9_configured_capital_counterexample:
  "computeInvestedToDate
      \<lparr>config = createDefaultCPPIConfig, startDate = 0, lastRebalanceWeek = 0\<rparr> 0
   \<noteq> investedToDate_spec 25000 (weeklyDeposit createDefaultCPPIConfig)
        (getWeeksSinceStart
           \<lparr>config = createDefaultCPPIConfig, startDate = 0, lastRebalanceWeek = 0\<rparr> 0)"
  by (simp add: computeInvestedToDate_def investedToDate_spec_def getWeeksSinceStart_div
      createDefaultCPPIConfig_def)

text \<open>
  Claim C9, amended.  For every current date and every configuration,
  \<open>computeInvestedToDate\<close> returns 10000 plus the weekly deposit times the number of whole
  weeks since the start date (the quotient of the elapsed milliseconds by the length of a
  week, rounded down); the base 10000 is a constant of the code.
\<close>

theorem C9_invested_to_date_fixed_base:
  "computeInvestedToDate eng d =
     investedToDate_spec 10000 (weeklyDeposit (config eng)) (getWeeksSinceStart eng d)
   \<and> getWeeksSinceStart eng d = (d - startDate eng) div (7 * 24 * 60 * 60 * 1000)"
  by (simp add: computeInvestedToDate_def investedToDate_spec_def getWeeksSinceStart_div
      msPerWeek_def)


subsection \<open>Pricing kernel: put-call parity\<close>

lemma erf_zero: "erf 0 = 1 / 10 ^ 9"
  by (simp add: erf_def Let_def)

lemma erf_odd: "x \<noteq> 0 \<Longrightarrow> erf (- x) = - erf x"
  by (simp add: erf_def Let_def)

lemma cdfPair_nonzero: "x \<noteq> 0 \<Longrightarrow> cdfPair x = 1"
  by (simp add: cdfPair_def normalCDF_def erf_odd field_simps)

lemma cdfPair_zero: "cdfPair 0 = 1 + 1 / 10 ^ 9"
  by (simp add: cdfPair_def normalCDF_def erf_zero)

lemma cdfPair_bounds: "1 \<le> cdfPair x \<and> cdfPair x \<le> 1 + 1 / 10 ^ 9"
  by (cases "x = 0") (simp_all add: cdfPair_nonzero cdfPair_zero)

lemma parity_split:
  "calculateOptionPrice S K T v CALL - calculateOptionPrice S K T v PUT =
     (let d1 = (ln (S / K) + (5 / 100 + (1 / 2) * v ^ 2) * T) / (v * sqrt T);
          d2 = d1 - v * sqrt T
      in S * cdfPair d1 - K * exp (- (5 / 100) * T) * cdfPair d2)"
  by (simp add: calculateOptionPrice_def cdfPair_def Let_def algebra_simps)

text \<open>
  Where neither \<open>d1\<close> nor \<open>d2\<close> is zero the approximated error function is odd and the
  parity is exact.
\<close>

lemma parity_exact:
  assumes "(ln (S / K) + (5 / 100 + (1 / 2) * v ^ 2) * T) / (v * sqrt T) \<noteq> 0"
    and "(ln (S / K) + (5 / 100 + (1 / 2) * v ^ 2) * T) / (v * sqrt T) - v * sqrt T \<noteq> 0"
  shows "calculateOptionPrice S K T v CALL - calculateOptionPrice S K T v PUT
         = S - K * exp (- (5 / 100) * T)"
  using assms unfolding parity_split Let_def by (simp add: cdfPair_nonzero)

text \<open>
  Claim C7, as stated, fails.  The claim bounds the parity error by 1e-3 for every positive
  spot and strike.  The approximation gives \<open>erf 0 = 1e-9\<close> and not 0, so at \<open>d2 = 0\<close>
  the error is the discounted strike times 1e-9.  At the money with spot and strike
  \<open>10^9\<close>, one year to expiry and a volatility of \<open>sqrt 0.1\<close> (for which
  \<open>r = vol^2 / 2\<close> and \<open>d2 = 0\<close>), the error is \<open>exp (- 0.05)\<close>, about 0.95.
\<close>

theorem C7_parity_counterexample:
  "\<not> \<bar>calculateOptionPrice (10 ^ 9) (10 ^ 9) 1 (sqrt (1 / 10)) CALL
        - calculateOptionPrice (10 ^ 9) (10 ^ 9) 1 (sqrt (1 / 10)) PUT
        - (10 ^ 9 - 10 ^ 9 * exp (- (5 / 100) * 1))\<bar> \<le> 1 / 1000"
proof -
  define v :: real where "v = sqrt (1 / 10)"
  have v2: "v ^ 2 = 1 / 10" and vpos: "0 < v" by (simp_all add: v_def)
  have d1: "(ln (10 ^ 9 / 10 ^ 9 :: real) + (5 / 100 + (1 / 2) * v ^ 2) * 1) / (v * sqrt 1) = v"
    using vpos v2 by (simp add: field_simps power2_eq_square)
  have eq: "calculateOptionPrice (10 ^ 9) (10 ^ 9) 1 v CALL
        - calculateOptionPrice (10 ^ 9) (10 ^ 9) 1 v PUT
        - (10 ^ 9 - 10 ^ 9 * exp (- (5 / 100) * 1)) = - exp (- (5 / 100))"
    unfolding parity_split Let_def d1 using vpos
    by (simp add: cdfPair_nonzero cdfPair_zero algebra_simps)
  have "1 + (- (5 / 100)) \<le> exp (- (5 / 100) :: real)" by (rule exp_ge_add_one_self)
  then have "1 / 1000 < exp (- (5 / 100) :: real)" by simp
  then show ?thesis unfolding v_def [symmetric] eq by simp
qed

text \<open>
  Claim C7, amended.  For every spot and strike in \<open>(0, 10^6]\<close>, every time to expiry in
  \<open>[0.02, 1]\<close> and every volatility in \<open>[0.05, 1]\<close>, the call price minus the put price
  of the kernel is within 1e-3 of \<open>S - K * exp (- r * T)\<close> with \<open>r = 0.05\<close>, in real
  arithmetic.
\<close>

theorem C7_parity_within_tolerance:
  assumes S: "0 < S" "S \<le> 10 ^ 6" and K: "0 < K" "K \<le> 10 ^ 6"
    and T: "2 / 100 \<le> T" "T \<le> 1" and v: "5 / 100 \<le> v" "v \<le> 1"
  shows "\<bar>calculateOptionPrice S K T v CALL - calculateOptionPrice S K T v PUT
          - (S - K * exp (- (5 / 100) * T))\<bar> \<le> 1 / 1000"
proof -
  define d1 where "d1 = (ln (S / K) + (5 / 100 + (1 / 2) * v ^ 2) * T) / (v * sqrt T)"
  define d2 where "d2 = d1 - v * sqrt T"
  define D where "D = K * exp (- (5 / 100) * T)"
  define e1 where "e1 = cdfPair d1 - 1"
  define e2 where "e2 = cdfPair d2 - 1"
  have e1: "0 \<le> e1" "e1 \<le> 1 / 10 ^ 9" and e2: "0 \<le> e2" "e2 \<le> 1 / 10 ^ 9"
    using cdfPair_bounds [of d1] cdfPair_bounds [of d2] by (simp_all add: e1_def e2_def)
  have "exp (- (5 / 100) * T) \<le> 1" using T by simp
  then have D: "0 \<le> D" "D \<le> 10 ^ 6"
    using K unfolding D_def by (simp_all add: mult_le_one mult_left_le order_trans [of _ K])
  have eq: "calculateOptionPrice S K T v CALL - calculateOptionPrice S K T v PUT
          - (S - K * exp (- (5 / 100) * T)) = S * e1 - D * e2"
    unfolding parity_split Let_def d1_def [symmetric] d2_def [symmetric] D_def e1_def e2_def
    by (simp add: algebra_simps)
  have "S * e1 \<le> 10 ^ 6 * (1 / 10 ^ 9)" using S e1 by (intro mult_mono) simp_all
  then have X: "S * e1 \<le> 1 / 1000" by simp
  have "D * e2 \<le> 10 ^ 6 * (1 / 10 ^ 9)" using D e2 by (intro mult_mono) simp_all
  then have Y: "D * e2 \<le> 1 / 1000" by simp
  have nn: "0 \<le> S * e1" "0 \<le> D * e2" using S e1 D e2 by simp_all
  have "\<bar>S * e1 - D * e2\<bar> \<le> 1 / 1000" using X Y nn by linarith
  then show ?thesis by (simp only: eq)
qed

text \<open>
  Claim C7, amended: a witness, the at-the-money option of the specification's scenario
  (spot and strike 100, a quarter of a year, volatility 0.2).
\<close>

theorem C7_parity_within_tolerance_witness:
  "(0::real) < 100 \<and> (100::real) \<le> 10 ^ 6 \<and> 2 / 100 \<le> (1 / 4 :: real) \<and> 1 / 4 \<le> (1::real)
   \<and> 5 / 100 \<le> (1 / 5 :: real) \<and> 1 / 5 \<le> (1::real)
   \<and> \<bar>calculateOptionPrice 100 100 (1 / 4) (1 / 5) CALL
        - calculateOptionPrice 100 100 (1 / 4) (1 / 5) PUT
        - (100 - 100 * exp (- (5 / 100) * (1 / 4)))\<bar> \<le> 1 / 1000"
  using C7_parity_within_tolerance [of 100 100 "1 / 4" "1 / 5"] by simp


subsection \<open>Trade execution\<close>

text \<open>A draw of the engine's generator lies in \<open>[0, 1)\<close>.\<close>

lemma rnd_fst_bounds: "0 \<le> fst (rnd seed) \<and> fst (rnd seed) < 1"
proof -
  have "unat (1664525 * seed + 1013904223 :: 32 word) < 2 ^ 32"
    using unsigned_less [of "1664525 * seed + 1013904223 :: 32 word", where ?'a = nat] by simp
  then have "real (unat (1664525 * seed + 1013904223 :: 32 word)) < 4294967296"
    by (simp del: of_nat_unat)
  then show ?thesis by (simp add: rnd_def Let_def del: of_nat_unat)
qed

lemma positionOf_update: "positionOf (AList.update k v pf) k = v"
  by (simp add: positionOf_def update_conv')

lemma positionOf_delete: "positionOf (AList.delete k pf) k = 0"
  by (simp add: positionOf_def delete_conv')

text \<open>
  Claim C6, as stated, fails.  The claim: a buy that the cash does not cover leaves the
  state of the simulator completely unchanged.  \<open>executeTrade\<close> draws the slippage from
  the engine's generator before it looks at the cash, so the seed has moved on when the
  trade is skipped.  A buy of one contract quoted at 5, with 100 in cash: the gross plus
  the commission is above 100, and the state after the call is not the state before.
\<close>

theorem C6_skipped_buy_counterexample:
  "executedPrice 123456789 BUY 5 * 1 * 100 + 65 / 100 * 1 > (100::real)
   \<and> executeTrade sampleHost ''SPY_2023-02-15_400_PUT'' BUY 1 5 ''crash_hedge'' ''2023-01-01''
        \<lparr>bconfig = sampleConfig, marketData = [], optionData = [], trades = [], portfolio = [],
         cash = 100, currentDate = ''2023-01-01'', randSeed = 123456789, randomCalls = 0\<rparr>
      \<noteq> \<lparr>bconfig = sampleConfig, marketData = [], optionData = [], trades = [],
          portfolio = [], cash = 100, currentDate = ''2023-01-01'', randSeed = 123456789,
          randomCalls = 0\<rparr>"
  by (simp add: executeTrade_def executedPrice_def rnd_def sampleConfig_def Let_def)

text \<open>
  Claim C6, amended.  For every requested buy whose gross cash flow (executed price times
  quantity times 100) plus commission exceeds the cash, \<open>executeTrade\<close> skips the trade:
  the cash, the positions and the list of trades are the same after the call as before,
  no trade is recorded, and the only change of the state is the seed of the engine's
  generator, advanced by the one draw of the slippage.
\<close>

theorem C6_skipped_buy_changes_only_seed:
  assumes "executedPrice (randSeed s) BUY price * quantity * 100
             + bc_commissionPerContract (bconfig s) * quantity > cash s"
  shows "executeTrade h symbol BUY quantity price strategy date s
           = s\<lparr>randSeed := snd (rnd (randSeed s))\<rparr>
         \<and> cash (executeTrade h symbol BUY quantity price strategy date s) = cash s
         \<and> portfolio (executeTrade h symbol BUY quantity price strategy date s) = portfolio s
         \<and> trades (executeTrade h symbol BUY quantity price strategy date s) = trades s"
  using assms by (simp add: executeTrade_def Let_def)

text \<open>Claim C6, amended: a witness, the buy of the counterexample.\<close>

theorem C6_skipped_buy_changes_only_seed_witness:
  "executedPrice 123456789 BUY 5 * 1 * 100 + 65 / 100 * 1 > (100::real)
   \<and> executeTrade sampleHost ''SPY_2023-02-15_400_PUT'' BUY 1 5 ''crash_hedge'' ''2023-01-01''
        \<lparr>bconfig = sampleConfig, marketData = [], optionData = [], trades = [], portfolio = [],
         cash = 100, currentDate = ''2023-01-01'', randSeed = 123456789, randomCalls = 0\<rparr>
      = \<lparr>bconfig = sampleConfig, marketData = [], optionData = [], trades = [],
          portfolio = [], cash = 100, currentDate = ''2023-01-01'',
          randSeed = snd (rnd 123456789), randomCalls = 0\<rparr>"
  using C6_skipped_buy_changes_only_seed [of
      "\<lparr>bconfig = sampleConfig, marketData = [], optionData = [], trades = [], portfolio = [],
        cash = 100, currentDate = ''2023-01-01'', randSeed = 123456789, randomCalls = 0\<rparr>"
      5 1 sampleHost "''SPY_2023-02-15_400_PUT''" "''crash_hedge''" "''2023-01-01''"]
  by (simp add: executedPrice_def rnd_def sampleConfig_def Let_def)

text \<open>
  Claim C10.  A sell is executed whatever the cash and whatever the position held: the
  cash changes by the gross proceeds minus the commission, the position in the symbol goes
  down by the quantity, one trade is recorded at the executed price; and where the
  commission is above the gross proceeds the cash goes down.
\<close>

theorem C10_sell_always_executes:
  "cash (executeTrade h symbol SELL quantity price strategy date s)
      = cash s + (executedPrice (randSeed s) SELL price * quantity * 100
                  - bc_commissionPerContract (bconfig s) * quantity)
    \<and> positionOf (portfolio (executeTrade h symbol SELL quantity price strategy date s)) symbol
        = positionOf (portfolio s) symbol - quantity
    \<and> trades (executeTrade h symbol SELL quantity price strategy date s) = trades s @
        [\<lparr>t_id = \<lparr>id_now = dateNow h (length (trades s)),
                  id_random = mathRandom h (randomCalls s)\<rparr>,
          t_date = date, t_symbol = symbol, t_side = SELL, t_quantity = quantity,
          t_price = executedPrice (randSeed s) SELL price,
          t_commission = bc_commissionPerContract (bconfig s) * quantity,
          t_strategy = strategy\<rparr>]
    \<and> (executedPrice (randSeed s) SELL price * quantity * 100
          < bc_commissionPerContract (bconfig s) * quantity
        \<longrightarrow> cash (executeTrade h symbol SELL quantity price strategy date s) < cash s)"
  by (simp add: executeTrade_def Let_def positionOf_update positionOf_delete)

text \<open>
  Claim C10: a witness.  One contract quoted at one cent is sold with a commission of 2 a
  contract and half a unit of cash, and no position held: the gross proceeds are below the
  commission and the cash ends below zero.
\<close>

theorem C10_sell_always_executes_witness:
  "executedPrice 123456789 SELL (1 / 100) * 1 * 100 < (2::real) * 1
   \<and> cash (executeTrade sampleHost ''SPY_2023-02-15_400_PUT'' SELL 1 (1 / 100) ''cash_secured_put''
        ''2023-01-01''
        \<lparr>bconfig = sampleConfig\<lparr>bc_commissionPerContract := 2\<rparr>, marketData = [],
         optionData = [], trades = [], portfolio = [], cash = 1 / 2,
         currentDate = ''2023-01-01'', randSeed = 123456789, randomCalls = 0\<rparr>) < 1 / 2
   \<and> cash (executeTrade sampleHost ''SPY_2023-02-15_400_PUT'' SELL 1 (1 / 100) ''cash_secured_put''
        ''2023-01-01''
        \<lparr>bconfig = sampleConfig\<lparr>bc_commissionPerContract := 2\<rparr>, marketData = [],
         optionData = [], trades = [], portfolio = [], cash = 1 / 2,
         currentDate = ''2023-01-01'', randSeed = 123456789, randomCalls = 0\<rparr>) < 0"
  using C10_sell_always_executes [of sampleHost "''SPY_2023-02-15_400_PUT''" 1 "1 / 100"
     "''cash_secured_put''" "''2023-01-01''"
     "\<lparr>bconfig = sampleConfig\<lparr>bc_commissionPerContract := 2\<rparr>, marketData = [],
       optionData = [], trades = [], portfolio = [], cash = 1 / 2,
       currentDate = ''2023-01-01'', randSeed = 123456789, randomCalls = 0\<rparr>"]
  by (simp add: executedPrice_def rnd_def sampleConfig_def Let_def)


subsection \<open>Strategy leg builders\<close>

lemma reduce1_nonempty: "xs \<noteq> [] \<Longrightarrow> \<exists>y. reduce1 f xs = Inr y"
  by (cases xs) (simp_all add: reduce1_def)











text \<open>The straddle builder returns the empty list on a surface of calls only.\<close>

lemma buildATMStraddle_no_puts:
  assumes "\<forall>opt \<in> set options. od_optionType opt \<noteq> PUT" and "options \<noteq> []"
  shows "buildATMStraddle s options underlying = Inr []"
proof -
  have calls: "filter (\<lambda>opt. od_optionType opt = CALL) options = options"
    using assms(1) by (auto simp: filter_id_conv intro: OptionType.exhaust)
  have puts: "filter (\<lambda>opt. od_optionType opt = PUT) options = []"
    using assms(1) by (simp add: filter_empty_conv)
  have "reduce1 f options \<noteq> Inl e" for f :: "OptionData \<Rightarrow> OptionData \<Rightarrow> OptionData" and e
    using reduce1_nonempty [OF assms(2), of f] by auto
  then show ?thesis
    unfolding buildATMStraddle_def Let_def calls puts
    by (auto split: option.splits sum.splits)
qed

text \<open>
  On a surface without calls, and with a price of the underlying for the day, the straddle
  builder reduces the empty array and throws.
\<close>

lemma buildATMStraddle_no_calls:
  assumes "map_of (marketData s) u = Some md"
    and "find (\<lambda>m. md_date m = currentDate s) md = Some m"
    and "\<forall>opt \<in> set options. od_optionType opt \<noteq> CALL"
  shows "buildATMStraddle s options (Some u) = Inl TypeError"
proof -
  have "filter (\<lambda>opt. od_optionType opt = CALL) options = []"
    using assms(3) by (simp add: filter_empty_conv)
  then show ?thesis using assms(1,2) by (simp add: buildATMStraddle_def reduce1_def Let_def)
qed





subsection \<open>Reproducibility of a run\<close>

text \<open>
  Claim C4 (the code departs from it).  The claim: two runs with the same configuration
  give the same trades, the same daily P&L and the same metrics, every draw coming from
  the seeded generators.  \<open>executeStrategy\<close>, \<open>buildCashSecuredPut\<close>, the trade ids,
  \<open>calculateMetrics\<close> and \<open>calculateStrategyBreakdown\<close> draw from \<open>Math.random()\<close>.
  The same loaded engine, run under a host whose \<open>Math.random()\<close> returns one half and
  under a host whose \<open>Math.random()\<close> returns zero, buys the same put and reports a win
  rate of 1 in the first run and of 0 in the second.
\<close>

theorem C4_same_run_different_metrics:
  "map_sum id (\<lambda>r. map t_symbol (r_trades r))
       (runBacktest sampleHost (sampleEngine ''crash_hedge''))
     = Inr [''SPY_2023-02-15_400_PUT'']
   \<and> map_sum id (\<lambda>r. winRate (r_metrics r))
       (runBacktest sampleHost (sampleEngine ''crash_hedge'')) = Inr (Fin 1)
   \<and> map_sum id (\<lambda>r. winRate (r_metrics r))
       (runBacktest (sampleHost\<lparr>mathRandom := \<lambda>n. 0\<rparr>) (sampleEngine ''crash_hedge''))
     = Inr (Fin 0)"
  by (simp add: runBacktest_def tradingDates_def calculatePortfolioValue_def executeStrategy_def
      buildLegs_def buildCrashHedge_def nearestBy_def reduce1_def absDelta_def legOf_def
      sampleEngine_def sampleMarket_def samplePut_def executeTrade_def executedPrice_def
      rnd_def positionOf_def markPosition_def todayOpt_def part_def calculateMetrics_def
      tradePnL_def breakdownEntry_def drawdownStep_def sampleHost_def sampleDates_def
      sampleConfig_def pickAt_def tmpl_def validDte_def Let_def)


subsection \<open>The ledger: marking to market\<close>

lemma jadd_zero_right [simp]: "jadd v (Fin 0) = v"
  by (cases v) simp_all

lemma jadd_zero_left [simp]: "jadd (Fin 0) v = v"
  by (cases v) simp_all









lemma markPosition_portfolio_update [simp]:
  "markPosition h (s\<lparr>portfolio := pf'\<rparr>) = markPosition h s"
  by (simp add: fun_eq_iff markPosition_def todayOpt_def Let_def cong: option.case_cong)

lemma entryValue_portfolio_update [simp]:
  "entryValue h (s\<lparr>portfolio := pf'\<rparr>) = entryValue h s"
  by (simp add: fun_eq_iff entryValue_def)


text \<open>
  A position without a quote on the mark date and without a price of the underlying on
  its expiry date adds nothing to the value, before its expiry as after it.
\<close>

lemma entryValue_data_gap:
  assumes "todayOpt s (part (splitOn CHR ''_'' symbol) 0) symbol = None"
    and "\<forall>u md. part (splitOn CHR ''_'' symbol) 0 = Some u \<longrightarrow> map_of (marketData s) u = Some md
           \<longrightarrow> find (\<lambda>m. Some (md_date m) = part (splitOn CHR ''_'' symbol) 1) md = None"
  shows "entryValue h s (symbol, quantity) = Fin 0"
  using assms unfolding entryValue_def markPosition_def Let_def
  by (auto split: option.splits)

text \<open>
  A position that has a quote in the surface of the mark date is valued at the quote and
  kept, before its expiry as after it: the code looks for the quote first.
\<close>

lemma markPosition_live_quote:
  assumes "todayOpt s (part (splitOn CHR ''_'' symbol) 0) symbol = Some opt"
  shows "markPosition h s (symbol, quantity) (v, pf)
           = (jadd v (Fin (od_price opt * quantity * 100)), pf)"
  using assms by (simp add: markPosition_def Let_def)




end
